theory Spec2Isabelle
  imports Complex_Main "HOL-Library.List_Lexorder" "HOL-Library.Char_ord"
begin

section \<open>Text: characters, classes and the three patterns\<close>

text \<open>
  The script \<^verbatim>\<open>src/01_prepare_data.py\<close> works on Python strings. A text is modelled as a
  \<^typ>\<open>string\<close>; each \<^typ>\<open>char\<close> stands for the code point of the same number, so the
  model covers texts over the code points 0 to 255. The character tests below are those of
  Python on that range: \<^verbatim>\<open>\s\<close> and \<^verbatim>\<open>str.strip\<close> use \<^verbatim>\<open>str.isspace\<close>, \<^verbatim>\<open>\d\<close> the decimal
  digits, \<^verbatim>\<open>\w\<close> the alphanumeric code points and the underscore.
\<close>

definition code :: "char \<Rightarrow> nat" where
  "code c = of_char c"

definition is_space :: "char \<Rightarrow> bool" where
  "is_space c = (let n = code c in
     (9 \<le> n \<and> n \<le> 13) \<or> (28 \<le> n \<and> n \<le> 32) \<or> n = 133 \<or> n = 160)"

definition is_digit :: "char \<Rightarrow> bool" where
  "is_digit c = (let n = code c in 48 \<le> n \<and> n \<le> 57)"

definition is_alpha :: "char \<Rightarrow> bool" where
  "is_alpha c = (let n = code c in
     (65 \<le> n \<and> n \<le> 90) \<or> (97 \<le> n \<and> n \<le> 122) \<or> n = 170 \<or> n = 181 \<or> n = 186 \<or>
     (192 \<le> n \<and> n \<le> 214) \<or> (216 \<le> n \<and> n \<le> 246) \<or> 248 \<le> n)"

text \<open>
  The code points that Python counts as digits or numbers without their being decimal digits:
  the superscripts two, three and one (178, 179, 185) and the fractions a quarter, a half and
  three quarters (188 to 190). \<^verbatim>\<open>\w\<close> matches them, \<^verbatim>\<open>\d\<close> does not.
\<close>

definition is_other_numeric :: "char \<Rightarrow> bool" where
  "is_other_numeric c = (let n = code c in
     n = 178 \<or> n = 179 \<or> n = 185 \<or> (188 \<le> n \<and> n \<le> 190))"

definition is_word :: "char \<Rightarrow> bool" where
  "is_word c = (is_alpha c \<or> is_digit c \<or> is_other_numeric c \<or> c = CHR ''_'')"

definition py_lower :: "char \<Rightarrow> char" where
  "py_lower c = (let n = code c in
     if (65 \<le> n \<and> n \<le> 90) \<or> (192 \<le> n \<and> n \<le> 214) \<or> (216 \<le> n \<and> n \<le> 222)
     then char_of (n + 32) else c)"

definition str_lower :: "string \<Rightarrow> string" where
  "str_lower s = map py_lower s"

definition str_strip :: "string \<Rightarrow> string" where
  "str_strip s = rev (dropWhile is_space (rev (dropWhile is_space s)))"

text \<open>
  The patterns of the script use literals, character classes, an alternation, one capturing
  group, and the greedy quantifiers \<^verbatim>\<open>*\<close>, \<^verbatim>\<open>+\<close>, \<^verbatim>\<open>?\<close> applied to single-character
  items only. All three are compiled with \<^verbatim>\<open>re.IGNORECASE\<close>: a literal character matches
  a text character when both have the same lower-case form.
\<close>

datatype atom = Ch char | Digit | Space | WordCh | Either atom atom

fun atom_match :: "atom \<Rightarrow> char \<Rightarrow> bool" where
  "atom_match (Ch p) c = (py_lower c = py_lower p)"
| "atom_match Digit c = is_digit c"
| "atom_match Space c = is_space c"
| "atom_match WordCh c = is_word c"
| "atom_match (Either a b) c = (atom_match a c \<or> atom_match b c)"

datatype regex =
    Lit string
  | Star atom
  | Plus atom
  | Opt atom
  | Alt regex regex
  | Seq regex regex
  | Group regex

text \<open>
  \<open>matches r s\<close> lists every way \<open>r\<close> can match a prefix of \<open>s\<close>, in the order in which
  Python's backtracking matcher tries them: the text captured by the group (if the group took
  part) and the rest of \<open>s\<close> after the match. A greedy quantifier offers the longest run
  first, an alternation its left branch first.
\<close>

fun matches :: "regex \<Rightarrow> string \<Rightarrow> (string option \<times> string) list" where
  "matches (Lit w) s =
     (if length w \<le> length s \<and> list_all2 (\<lambda>p c. atom_match (Ch p) c) w (take (length w) s)
      then [(None, drop (length w) s)] else [])"
| "matches (Star a) s =
     map (\<lambda>k. (None, drop k s)) (rev [0 ..< Suc (length (takeWhile (atom_match a) s))])"
| "matches (Plus a) s =
     map (\<lambda>k. (None, drop k s)) (rev [1 ..< Suc (length (takeWhile (atom_match a) s))])"
| "matches (Opt a) s =
     (case s of
        [] \<Rightarrow> [(None, s)]
      | c # cs \<Rightarrow> if atom_match a c then [(None, cs), (None, s)] else [(None, s)])"
| "matches (Alt r1 r2) s = matches r1 s @ matches r2 s"
| "matches (Seq r1 r2) s =
     concat (map (\<lambda>(g1, s1).
        map (\<lambda>(g2, s2). (case g2 of None \<Rightarrow> g1 | Some _ \<Rightarrow> g2, s2)) (matches r2 s1))
       (matches r1 s))"
| "matches (Group r) s =
     map (\<lambda>(_, s'). (Some (take (length s - length s') s), s')) (matches r s)"

text \<open>
  \<^verbatim>\<open>re.search\<close>: the first start position, from the left, at which the pattern matches, and
  there the first match in the matcher's order. \<^verbatim>\<open>Series.str.extract(pat, expand=False)\<close>
  gives the text of group 1 of that match, and the missing value when there is none.
\<close>

fun search :: "regex \<Rightarrow> string \<Rightarrow> (string option \<times> string) option" where
  "search r [] = (case matches r [] of [] \<Rightarrow> None | m # _ \<Rightarrow> Some m)"
| "search r (c # cs) = (case matches r (c # cs) of [] \<Rightarrow> search r cs | m # _ \<Rightarrow> Some m)"

definition str_extract :: "regex \<Rightarrow> string \<Rightarrow> string option" where
  "str_extract r s = (case search r s of None \<Rightarrow> None | Some (g, _) \<Rightarrow> g)"

text \<open>
  \<^verbatim>\<open>pack_regex = re.compile(r'(?:pack of|count|per case|pack)\s*\(?(\d+)\)?', re.IGNORECASE)\<close>
\<close>

definition pack_regex :: regex where
  "pack_regex =
     Seq (Alt (Lit ''pack of'') (Alt (Lit ''count'') (Alt (Lit ''per case'') (Lit ''pack''))))
    (Seq (Star Space)
    (Seq (Opt (Ch CHR ''(''))
    (Seq (Group (Plus Digit))
         (Opt (Ch CHR '')'')))))"

text \<open>\<^verbatim>\<open>value_regex = re.compile(r'value:\s*([\d\.]+)', re.IGNORECASE)\<close>\<close>

definition value_regex :: regex where
  "value_regex =
     Seq (Lit ''value:'') (Seq (Star Space) (Group (Plus (Either Digit (Ch CHR ''.'')))))"

text \<open>\<^verbatim>\<open>unit_regex = re.compile(r'unit:\s*([\w\s]+)', re.IGNORECASE)\<close>\<close>

definition unit_regex :: regex where
  "unit_regex =
     Seq (Lit ''unit:'') (Seq (Star Space) (Group (Plus (Either WordCh Space))))"


section \<open>Numbers and columns\<close>

text \<open>
  Floating-point numbers are idealised: a number is a \<^typ>\<open>real\<close>, and \<open>None\<close> stands for
  the missing value NaN. Binary rounding and overflow to infinity are not modelled.
\<close>

datatype error = KeyError string | ValueError string | TypeError

definition digit_val :: "char \<Rightarrow> nat" where
  "digit_val c = code c - 48"

definition dec_val :: "string \<Rightarrow> nat" where
  "dec_val ds = foldl (\<lambda>a c. 10 * a + digit_val c) 0 ds"

text \<open>
  \<^verbatim>\<open>float(s)\<close> as \<^verbatim>\<open>astype(float)\<close> calls it on a captured text. The captures of the two
  numeric patterns hold digits and dots only, and on such a text Python accepts exactly the
  forms \<^verbatim>\<open>12\<close>, \<^verbatim>\<open>12.\<close>, \<^verbatim>\<open>.5\<close> and \<^verbatim>\<open>12.5\<close>; it raises \<^verbatim>\<open>ValueError\<close> on every other one
  (no digit at all, or more than one dot).
\<close>

definition py_float :: "string \<Rightarrow> error + real" where
  "py_float s =
     (let ip = takeWhile is_digit s in
      case dropWhile is_digit s of
        [] \<Rightarrow> if ip = [] then Inl (ValueError s) else Inr (real (dec_val ip))
      | d # fp \<Rightarrow>
          if d = CHR ''.'' \<and> list_all is_digit fp \<and> \<not> (ip = [] \<and> fp = [])
          then Inr (real (dec_val ip) + real (dec_val fp) / 10 ^ length fp)
          else Inl (ValueError s))"

text \<open>
  A column of a data frame has one dtype: \<open>ObjCol\<close> holds texts (\<open>None\<close> is a missing
  entry), \<open>FloatCol\<close> numbers, \<open>BoolCol\<close> truth values. A frame is the list of its named
  columns, in order.
\<close>

datatype column =
    ObjCol "string option list"
  | FloatCol "real option list"
  | BoolCol "bool list"

type_synonym frame = "(string \<times> column) list"

fun col_len :: "column \<Rightarrow> nat" where
  "col_len (ObjCol xs) = length xs"
| "col_len (FloatCol xs) = length xs"
| "col_len (BoolCol xs) = length xs"

definition names :: "frame \<Rightarrow> string list" where
  "names df = map fst df"

text \<open>\<^verbatim>\<open>len(df)\<close>: the number of rows.\<close>

definition nrows :: "frame \<Rightarrow> nat" where
  "nrows df = (case df of [] \<Rightarrow> 0 | (_, c) # _ \<Rightarrow> col_len c)"

text \<open>
  A frame as \<^verbatim>\<open>read_csv\<close> returns it: the column names are distinct and all columns have the
  same number of rows.
\<close>

definition wf_frame :: "frame \<Rightarrow> bool" where
  "wf_frame df = (distinct (names df) \<and> (\<forall>(_, c) \<in> set df. col_len c = nrows df))"

text \<open>\<^verbatim>\<open>df[name]\<close> raises \<^verbatim>\<open>KeyError\<close> when there is no such column.\<close>

definition get_column :: "frame \<Rightarrow> string \<Rightarrow> error + column" where
  "get_column df name = (case map_of df name of None \<Rightarrow> Inl (KeyError name) | Some c \<Rightarrow> Inr c)"

text \<open>\<^verbatim>\<open>df.drop(name, axis=1)\<close> raises \<^verbatim>\<open>KeyError\<close> when there is no such column.\<close>

definition drop_column :: "frame \<Rightarrow> string \<Rightarrow> error + frame" where
  "drop_column df name =
     (if name \<in> set (names df) then Inr (filter (\<lambda>(n, _). n \<noteq> name) df)
      else Inl (KeyError name))"

text \<open>\<^verbatim>\<open>df[name] = col\<close> replaces the column of that name, or appends a new last column.\<close>

definition set_column :: "frame \<Rightarrow> string \<Rightarrow> column \<Rightarrow> frame" where
  "set_column df name col =
     (if name \<in> set (names df) then map (\<lambda>(n, c). if n = name then (n, col) else (n, c)) df
      else df @ [(name, col)])"

text \<open>
  \<^verbatim>\<open>pd.concat([a, b], axis=1)\<close> on two frames over the same row index: the columns of \<open>a\<close>
  followed by those of \<open>b\<close>.
\<close>

definition concat_columns :: "frame \<Rightarrow> frame \<Rightarrow> frame" where
  "concat_columns a b = a @ b"

text \<open>
  \<^verbatim>\<open>Series.astype(str)\<close>: a text stays, a missing entry becomes \<^verbatim>\<open>nan\<close>, a truth value its
  Python name. How Python prints a number is left open: \<open>repr\<close> is a parameter of the model.
\<close>

fun astype_str :: "(real \<Rightarrow> string) \<Rightarrow> column \<Rightarrow> string list" where
  "astype_str repr (ObjCol xs) = map (\<lambda>x. case x of None \<Rightarrow> ''nan'' | Some s \<Rightarrow> s) xs"
| "astype_str repr (FloatCol xs) = map (\<lambda>x. case x of None \<Rightarrow> ''nan'' | Some v \<Rightarrow> repr v) xs"
| "astype_str repr (BoolCol xs) = map (\<lambda>b. if b then ''True'' else ''False'') xs"

text \<open>
  \<^verbatim>\<open>Series.median()\<close> skips missing entries; over no entries it is NaN. \<^verbatim>\<open>Series.fillna(v)\<close>
  puts \<open>v\<close> in place of each missing entry.
\<close>

definition median :: "real option list \<Rightarrow> real option" where
  "median xs =
     (let ys = sort (List.map_filter id xs); n = length ys in
      if n = 0 then None
      else if odd n then Some (ys ! (n div 2))
      else Some ((ys ! (n div 2 - 1) + ys ! (n div 2)) / 2))"

definition fillna :: "'a option \<Rightarrow> 'a option list \<Rightarrow> 'a option list" where
  "fillna v xs = map (\<lambda>x. case x of None \<Rightarrow> v | Some y \<Rightarrow> Some y) xs"

text \<open>
  \<^verbatim>\<open>pd.get_dummies(units, prefix='unit', dummy_na=False)\<close>: one indicator column for each
  distinct value, the values in sorted order, named by the prefix, an underscore and the
  value.
\<close>

definition get_dummies :: "string \<Rightarrow> string list \<Rightarrow> frame" where
  "get_dummies prefix units =
     map (\<lambda>level. (prefix @ ''_'' @ level, BoolCol (map (\<lambda>u. u = level) units)))
       (sort (remdups units))"

text \<open>
  \<^verbatim>\<open>left.align(right, join='inner', axis=1, fill_value=0)\<close> for frames with distinct column
  names: the joined column index holds the names that both frames have, and each frame is
  reindexed to it. Reindexing takes the columns by name; a name the frame lacks would give a
  column of the fill value.
\<close>

definition reindex_columns :: "frame \<Rightarrow> string list \<Rightarrow> real \<Rightarrow> frame" where
  "reindex_columns df cols fill_value =
     map (\<lambda>n. case map_of df n of
                 Some c \<Rightarrow> (n, c)
               | None \<Rightarrow> (n, FloatCol (replicate (nrows df) (Some fill_value)))) cols"

definition align_inner :: "frame \<Rightarrow> frame \<Rightarrow> real \<Rightarrow> frame \<times> frame" where
  "align_inner left right fill_value =
     (let join = filter (\<lambda>n. n \<in> set (names right)) (names left)
      in (reindex_columns left join fill_value, reindex_columns right join fill_value))"

text \<open>
  \<^verbatim>\<open>np.log1p\<close> on a column: the natural logarithm of one plus the entry. A missing entry
  stays missing, an entry below \<open>-1\<close> gives NaN; at \<open>-1\<close> numpy gives minus infinity, which
  the model has no value for and shows as missing. A truth value counts as 1 or 0. On a
  column of dtype object numpy raises \<^verbatim>\<open>TypeError\<close>.
\<close>

fun log1p :: "column \<Rightarrow> error + column" where
  "log1p (FloatCol xs) =
     Inr (FloatCol (map (\<lambda>x. case x of None \<Rightarrow> None
                              | Some p \<Rightarrow> if - 1 < p then Some (ln (1 + p)) else None) xs))"
| "log1p (BoolCol xs) = Inr (FloatCol (map (\<lambda>b. Some (ln (1 + (if b then 1 else 0)))) xs))"
| "log1p (ObjCol xs) = Inl TypeError"

section \<open>Feature extraction\<close>

text \<open>Running a computation over every row stops at the first row that raises.\<close>

fun collect :: "(error + 'a) list \<Rightarrow> error + 'a list" where
  "collect [] = Inr []"
| "collect (x # xs) =
     (case x of
        Inl e \<Rightarrow> Inl e
      | Inr v \<Rightarrow> (case collect xs of Inl e \<Rightarrow> Inl e | Inr vs \<Rightarrow> Inr (v # vs)))"

text \<open>
  The three signals of one text, as the chained calls of \<^verbatim>\<open>extract_features\<close> compute them
  for each row: \<^verbatim>\<open>.str.extract(pack_regex).fillna(1).astype(float)\<close>,
  \<^verbatim>\<open>.str.extract(value_regex).fillna(0).astype(float)\<close> and
  \<^verbatim>\<open>.str.extract(unit_regex).fillna('Unknown').str.strip().str.lower()\<close>.
\<close>

definition pack_size_of :: "string \<Rightarrow> error + real" where
  "pack_size_of t = (case str_extract pack_regex t of None \<Rightarrow> Inr 1 | Some g \<Rightarrow> py_float g)"

definition value_of :: "string \<Rightarrow> error + real" where
  "value_of t = (case str_extract value_regex t of None \<Rightarrow> Inr 0 | Some g \<Rightarrow> py_float g)"

definition unit_of :: "string \<Rightarrow> string" where
  "unit_of t =
     str_lower (str_strip (case str_extract unit_regex t of None \<Rightarrow> ''Unknown'' | Some g \<Rightarrow> g))"

definition extract_features ::
  "(real \<Rightarrow> string) \<Rightarrow> column \<Rightarrow> error + (real list \<times> real list \<times> string list)" where
  "extract_features repr text_series =
     (let texts = astype_str repr text_series in
      case collect (map pack_size_of texts) of
        Inl e \<Rightarrow> Inl e
      | Inr pack_sizes \<Rightarrow>
          (case collect (map value_of texts) of
             Inl e \<Rightarrow> Inl e
           | Inr vals \<Rightarrow> Inr (pack_sizes, vals, map unit_of texts)))"

text \<open>
  \<^verbatim>\<open>create_feature_df(df, median_measure=None, median_pack_size=None)\<close>. The two optional
  arguments are \<open>None\<close> for Python's \<^verbatim>\<open>None\<close> and \<open>Some m\<close> for a number \<open>m\<close>, which may
  itself be NaN. The function body is written over the operation \<open>fill\<close> that the two
  \<^verbatim>\<open>.fillna(...)\<close> calls stand for, so that a statement can say which value the body hands
  to it; \<open>create_feature_df\<close> is the body with pandas's \<open>fillna\<close>.
\<close>

definition create_feature_df_with ::
  "(real option \<Rightarrow> real option list \<Rightarrow> real option list) \<Rightarrow> (real \<Rightarrow> string) \<Rightarrow> frame
     \<Rightarrow> real option option \<Rightarrow> real option option
     \<Rightarrow> error + (frame \<times> real option \<times> real option)" where
  "create_feature_df_with fill repr df median_measure median_pack_size =
     (case get_column df ''catalog_content'' of
        Inl e \<Rightarrow> Inl e
      | Inr series \<Rightarrow>
     (case extract_features repr series of
        Inl e \<Rightarrow> Inl e
      | Inr (pack_sizes, vals, units) \<Rightarrow>
          let pack_size = map Some pack_sizes;
              total_measure = map Some vals;
              unit_dummies = get_dummies ''unit'' units;
              median_measure' =
                (case median_measure of None \<Rightarrow> median total_measure | Some m \<Rightarrow> m);
              median_pack_size' =
                (case median_pack_size of None \<Rightarrow> median pack_size | Some m \<Rightarrow> m);
              features_df =
                concat_columns
                  [(''pack_size'', FloatCol (fill median_pack_size' pack_size)),
                   (''total_measure'', FloatCol (fill median_measure' total_measure))]
                  unit_dummies
          in Inr (features_df, median_measure', median_pack_size')))"

definition create_feature_df ::
  "(real \<Rightarrow> string) \<Rightarrow> frame \<Rightarrow> real option option \<Rightarrow> real option option
     \<Rightarrow> error + (frame \<times> real option \<times> real option)" where
  "create_feature_df repr df median_measure median_pack_size =
     create_feature_df_with fillna repr df median_measure median_pack_size"

section \<open>The script\<close>

text \<open>
  Reading the two files is outside the model: either an exception was raised inside the
  \<^verbatim>\<open>try\<close> block (its text is kept), or both frames were read.
\<close>

datatype load_outcome = LoadError string | Loaded frame frame

text \<open>
  A run ends in one of four ways: \<^verbatim>\<open>sys.exit()\<close> in the loading section, after the lines
  given were printed and before anything else is done; an exception that nothing catches,
  before any file is written; such an exception after the train file was written; or both
  final frames written.
\<close>

datatype outcome =
    Exited "string list"
  | Raised error
  | Raised_after_train frame error
  | Saved frame frame

text \<open>
  \<^verbatim>\<open>DataFrame.to_parquet\<close> refuses a frame in which a column name occurs twice: it raises
  \<^verbatim>\<open>ValueError\<close> before it writes. Otherwise the frame is what the file holds. The file
  system is outside the model.
\<close>

definition to_parquet :: "frame \<Rightarrow> error + frame" where
  "to_parquet df =
     (if distinct (names df) then Inr df else Inl (ValueError ''Duplicate column names found''))"

fun show_nat :: "nat \<Rightarrow> string" where
  "show_nat n =
     (if n < 10 then [char_of (48 + n)] else show_nat (n div 10) @ [char_of (48 + n mod 10)])"

definition RAW_DATA_FOLDER :: string where
  "RAW_DATA_FOLDER = ''data/raw''"

definition incomplete_message :: "nat \<Rightarrow> string list" where
  "incomplete_message n =
     [[CHR 0x0A, CHR 0x0A] @ ''*** CRITICAL WARNING ***'',
      ''Your train.csv file only has '' @ show_nat n @ '' rows.'',
      ''It is incomplete. You MUST re-download the full 75,000-row file.'',
      ''Stopping script.'']"

definition load_failure_message :: "string \<Rightarrow> string list" where
  "load_failure_message e =
     [[CHR 0x0A, CHR 0x0A] @ ''*** CRITICAL ERROR LOADING CSV ***'',
      ''Error: '' @ e,
      ''This likely means your .csv files are corrupt or incomplete.'',
      ''Please place your full CSV files in '' @ [CHR 0x27] @ RAW_DATA_FOLDER @ [CHR 0x27]
        @ '' and run again.'']"

text \<open>
  Sections 3 and 4 of the script, after loading: the features of both frames, their
  alignment, and the final frames. The calls of lines 107 to 119 are written over the same
  \<open>fill\<close> as the function they call; \<open>feature_extraction\<close> is what the script runs.
\<close>

definition feature_extraction_with ::
  "(real option \<Rightarrow> real option list \<Rightarrow> real option list) \<Rightarrow> (real \<Rightarrow> string)
     \<Rightarrow> frame \<Rightarrow> frame \<Rightarrow> error + (frame \<times> frame)" where
  "feature_extraction_with fill repr train_df test_df =
     (case create_feature_df_with fill repr train_df None None of
        Inl e \<Rightarrow> Inl e
      | Inr (train_features_df, median_measure, median_pack_size) \<Rightarrow>
     (case create_feature_df_with fill repr test_df
             (Some median_measure) (Some median_pack_size) of
        Inl e \<Rightarrow> Inl e
      | Inr (test_features_df, _, _) \<Rightarrow>
          Inr (align_inner train_features_df test_features_df 0)))"

definition feature_extraction ::
  "(real \<Rightarrow> string) \<Rightarrow> frame \<Rightarrow> frame \<Rightarrow> error + (frame \<times> frame)" where
  "feature_extraction repr train_df test_df =
     feature_extraction_with fillna repr train_df test_df"

definition save_processed ::
  "frame \<Rightarrow> frame \<Rightarrow> frame \<Rightarrow> frame \<Rightarrow> error + (frame \<times> frame)" where
  "save_processed train_df test_df train_cols test_cols =
     (case drop_column train_df ''image_link'' of
        Inl e \<Rightarrow> Inl e
      | Inr train_df' \<Rightarrow>
     (case drop_column test_df ''image_link'' of
        Inl e \<Rightarrow> Inl e
      | Inr test_df' \<Rightarrow>
          let train_final = concat_columns train_df' train_cols;
              test_final = concat_columns test_df' test_cols
          in (case get_column train_final ''price'' of
                Inl e \<Rightarrow> Inl e
              | Inr price \<Rightarrow>
             (case log1p price of
                Inl e \<Rightarrow> Inl e
              | Inr log_price \<Rightarrow>
                  Inr (set_column train_final ''log_price'' log_price, test_final)))))"

definition prepare_data ::
  "(real \<Rightarrow> string) \<Rightarrow> frame \<Rightarrow> frame \<Rightarrow> error + (frame \<times> frame)" where
  "prepare_data repr train_df test_df =
     (case feature_extraction repr train_df test_df of
        Inl e \<Rightarrow> Inl e
      | Inr (train_cols, test_cols) \<Rightarrow> save_processed train_df test_df train_cols test_cols)"

definition main :: "(real \<Rightarrow> string) \<Rightarrow> load_outcome \<Rightarrow> outcome" where
  "main repr loaded =
     (case loaded of
        LoadError e \<Rightarrow> Exited (load_failure_message e)
      | Loaded train_df test_df \<Rightarrow>
          if nrows train_df < 75000 then Exited (incomplete_message (nrows train_df))
          else (case prepare_data repr train_df test_df of
                  Inl e \<Rightarrow> Raised e
                | Inr (train_final, test_final) \<Rightarrow>
               (case to_parquet train_final of
                  Inl e \<Rightarrow> Raised e
                | Inr train_file \<Rightarrow>
               (case to_parquet test_final of
                  Inl e \<Rightarrow> Raised_after_train train_file e
                | Inr test_file \<Rightarrow> Saved train_file test_file))))"


section \<open>Columns, fills and feature frames\<close>

text \<open>The function and the calls of the script, with pandas's fill written out.\<close>

lemma create_feature_df_unfold:
  "create_feature_df repr df median_measure median_pack_size =
     (case get_column df ''catalog_content'' of
        Inl e \<Rightarrow> Inl e
      | Inr series \<Rightarrow>
     (case extract_features repr series of
        Inl e \<Rightarrow> Inl e
      | Inr (pack_sizes, vals, units) \<Rightarrow>
          let pack_size = map Some pack_sizes;
              total_measure = map Some vals;
              unit_dummies = get_dummies ''unit'' units;
              median_measure' =
                (case median_measure of None \<Rightarrow> median total_measure | Some m \<Rightarrow> m);
              median_pack_size' =
                (case median_pack_size of None \<Rightarrow> median pack_size | Some m \<Rightarrow> m);
              features_df =
                concat_columns
                  [(''pack_size'', FloatCol (fillna median_pack_size' pack_size)),
                   (''total_measure'', FloatCol (fillna median_measure' total_measure))]
                  unit_dummies
          in Inr (features_df, median_measure', median_pack_size')))"
  unfolding create_feature_df_def create_feature_df_with_def by (rule refl)

lemma feature_extraction_unfold:
  "feature_extraction repr train_df test_df =
     (case create_feature_df repr train_df None None of
        Inl e \<Rightarrow> Inl e
      | Inr (train_features_df, median_measure, median_pack_size) \<Rightarrow>
     (case create_feature_df repr test_df (Some median_measure) (Some median_pack_size) of
        Inl e \<Rightarrow> Inl e
      | Inr (test_features_df, _, _) \<Rightarrow>
          Inr (align_inner train_features_df test_features_df 0)))"
  unfolding feature_extraction_def feature_extraction_with_def create_feature_df_def
  by (rule refl)

lemma collect_map_Inr: "collect (map Inr vs) = Inr vs"
  by (induction vs) simp_all

lemma collect_InrD: "collect xs = Inr vs \<Longrightarrow> xs = map Inr vs"
proof (induction xs arbitrary: vs)
  case Nil
  then show ?case by simp
next
  case (Cons x xs)
  then show ?case by (auto split: sum.splits)
qed

lemma collect_Inr_iff: "collect xs = Inr vs \<longleftrightarrow> xs = map Inr vs"
  using collect_InrD collect_map_Inr by metis

lemma fillna_map_Some: "fillna v (map Some xs) = map Some xs"
  by (simp add: fillna_def)

lemma fillna_nth:
  "i < length xs \<Longrightarrow> fillna v xs ! i = (case xs ! i of None \<Rightarrow> v | Some y \<Rightarrow> Some y)"
  by (simp add: fillna_def)

lemma length_astype_str: "length (astype_str repr c) = col_len c"
  by (cases c) simp_all

lemma extract_features_Inr_iff:
  "extract_features repr s = Inr (ps, vs, us) \<longleftrightarrow>
     map pack_size_of (astype_str repr s) = map Inr ps \<and>
     map value_of (astype_str repr s) = map Inr vs \<and>
     us = map unit_of (astype_str repr s)"
  by (auto simp: extract_features_def Let_def collect_map_Inr dest: collect_InrD split: sum.splits)

lemma create_feature_df_InrE:
  assumes "create_feature_df repr df mm mp = Inr (f, a, b)"
  obtains s ps vs where
    "get_column df ''catalog_content'' = Inr s"
    "extract_features repr s = Inr (ps, vs, map unit_of (astype_str repr s))"
    "a = (case mm of None \<Rightarrow> median (map Some vs) | Some m \<Rightarrow> m)"
    "b = (case mp of None \<Rightarrow> median (map Some ps) | Some m \<Rightarrow> m)"
    "f = [(''pack_size'', FloatCol (fillna b (map Some ps))),
          (''total_measure'', FloatCol (fillna a (map Some vs)))]
         @ get_dummies ''unit'' (map unit_of (astype_str repr s))"
proof -
  from assms obtain s where s: "get_column df ''catalog_content'' = Inr s"
    by (auto simp: create_feature_df_unfold split: sum.splits)
  with assms obtain ps vs us where e: "extract_features repr s = Inr (ps, vs, us)"
    by (auto simp: create_feature_df_unfold split: sum.splits)
  then have us: "us = map unit_of (astype_str repr s)"
    by (simp add: extract_features_Inr_iff)
  from assms s e have
    "a = (case mm of None \<Rightarrow> median (map Some vs) | Some m \<Rightarrow> m)"
    "b = (case mp of None \<Rightarrow> median (map Some ps) | Some m \<Rightarrow> m)"
    "f = [(''pack_size'', FloatCol (fillna b (map Some ps))),
          (''total_measure'', FloatCol (fillna a (map Some vs)))]
         @ get_dummies ''unit'' us"
    by (auto simp: create_feature_df_unfold Let_def concat_columns_def)
  with s e us that show thesis by blast
qed

lemma names_get_dummies:
  "names (get_dummies prefix units) = map (\<lambda>l. prefix @ ''_'' @ l) (sort (remdups units))"
  by (simp add: names_def get_dummies_def comp_def)

lemma map_of_get_dummies:
  "map_of (get_dummies prefix units) (prefix @ ''_'' @ l) =
     (if l \<in> set units then Some (BoolCol (map (\<lambda>u. u = l) units)) else None)"
proof -
  have "map_of (map (\<lambda>l. (prefix @ ''_'' @ l, BoolCol (map (\<lambda>u. u = l) units))) ls)
          (prefix @ ''_'' @ l)
        = (if l \<in> set ls then Some (BoolCol (map (\<lambda>u. u = l) units)) else None)" for ls
    by (induction ls) auto
  from this [of "sort (remdups units)"] show ?thesis by (simp add: get_dummies_def)
qed

lemma unit_prefix_fun:
  "(@) ''unit_'' = (\<lambda>l. CHR ''u'' # CHR ''n'' # CHR ''i'' # CHR ''t'' # CHR ''_'' # l)"
  by (rule ext) simp

lemma map_of_unit_dummies:
  "map_of (get_dummies ''unit'' units) (''unit_'' @ l) =
     (if l \<in> set units then Some (BoolCol (map (\<lambda>u. u = l) units)) else None)"
  using map_of_get_dummies [of "''unit''" units l] by simp

lemma names_unit_dummies:
  "names (get_dummies ''unit'' units) = map (\<lambda>l. ''unit_'' @ l) (sort (remdups units))"
  by (simp add: names_get_dummies)

lemma unit_name_in_dummies:
  "''unit_'' @ l \<in> set (names (get_dummies ''unit'' units)) \<longleftrightarrow> l \<in> set units"
  by (auto simp: names_unit_dummies)

lemma filter_unit_names:
  "filter (\<lambda>n. n = ''pack_size'' \<or> n = ''total_measure'' \<or> n \<in> set (names (get_dummies ''unit'' U2)))
     (map (\<lambda>l. ''unit_'' @ l) ls) = map (\<lambda>l. ''unit_'' @ l) (filter (\<lambda>l. l \<in> set U2) ls)"
  by (induction ls) (auto simp: names_unit_dummies)

lemma reindex_unit_dummies:
  assumes "set ls \<subseteq> set U"
  shows "reindex_columns ((''pack_size'', a) # (''total_measure'', b) # get_dummies ''unit'' U)
           (map (\<lambda>l. ''unit_'' @ l) ls) fv
         = map (\<lambda>l. (''unit_'' @ l, BoolCol (map (\<lambda>u. u = l) U))) ls"
  using assms by (induction ls) (simp_all add: reindex_columns_def map_of_unit_dummies [simplified])

lemma align_feature_frames:
  "align_inner
     ([(''pack_size'', a1), (''total_measure'', b1)] @ get_dummies ''unit'' U1)
     ([(''pack_size'', a2), (''total_measure'', b2)] @ get_dummies ''unit'' U2) fv
   = ([(''pack_size'', a1), (''total_measure'', b1)]
        @ map (\<lambda>l. (''unit_'' @ l, BoolCol (map (\<lambda>u. u = l) U1)))
            (filter (\<lambda>l. l \<in> set U2) (sort (remdups U1))),
      [(''pack_size'', a2), (''total_measure'', b2)]
        @ map (\<lambda>l. (''unit_'' @ l, BoolCol (map (\<lambda>u. u = l) U2)))
            (filter (\<lambda>l. l \<in> set U2) (sort (remdups U1))))"
proof -
  let ?common = "filter (\<lambda>l. l \<in> set U2) (sort (remdups U1))"
  let ?L = "(''pack_size'', a1) # (''total_measure'', b1) # get_dummies ''unit'' U1"
  let ?R = "(''pack_size'', a2) # (''total_measure'', b2) # get_dummies ''unit'' U2"
  have nl: "names ?L = ''pack_size'' # ''total_measure'' # map (\<lambda>l. ''unit_'' @ l) (sort (remdups U1))"
    using names_unit_dummies [of U1] by (simp add: names_def)
  have nr: "set (names ?R) = {n. n = ''pack_size'' \<or> n = ''total_measure'' \<or> n \<in> set (names (get_dummies ''unit'' U2))}"
    by (auto simp: names_def)
  have join: "filter (\<lambda>n. n \<in> set (names ?R)) (names ?L)
                = ''pack_size'' # ''total_measure'' # map (\<lambda>l. ''unit_'' @ l) ?common"
    unfolding nl nr using filter_unit_names [of U2 "sort (remdups U1)"]
    by (simp add: unit_prefix_fun)
  have s1: "set ?common \<subseteq> set U1" and s2: "set ?common \<subseteq> set U2" by auto
  have l: "reindex_columns ?L (''pack_size'' # ''total_measure'' # map (\<lambda>l. ''unit_'' @ l) ?common) fv
             = (''pack_size'', a1) # (''total_measure'', b1)
               # map (\<lambda>l. (''unit_'' @ l, BoolCol (map (\<lambda>u. u = l) U1))) ?common"
    using reindex_unit_dummies [OF s1, of a1 b1 fv]
    by (simp add: reindex_columns_def unit_prefix_fun)
  have r: "reindex_columns ?R (''pack_size'' # ''total_measure'' # map (\<lambda>l. ''unit_'' @ l) ?common) fv
             = (''pack_size'', a2) # (''total_measure'', b2)
               # map (\<lambda>l. (''unit_'' @ l, BoolCol (map (\<lambda>u. u = l) U2))) ?common"
    using reindex_unit_dummies [OF s2, of a2 b2 fv]
    by (simp add: reindex_columns_def unit_prefix_fun)
  show ?thesis
    unfolding align_inner_def Let_def using join l r by (simp add: unit_prefix_fun)
qed

lemma feature_extraction_InrE:
  assumes "feature_extraction repr train_df test_df = Inr (train_cols, test_cols)"
  obtains s1 ps1 vs1 s2 ps2 vs2 where
    "get_column train_df ''catalog_content'' = Inr s1"
    "extract_features repr s1 = Inr (ps1, vs1, map unit_of (astype_str repr s1))"
    "get_column test_df ''catalog_content'' = Inr s2"
    "extract_features repr s2 = Inr (ps2, vs2, map unit_of (astype_str repr s2))"
    "create_feature_df repr train_df None None =
       Inr ([(''pack_size'', FloatCol (map Some ps1)), (''total_measure'', FloatCol (map Some vs1))]
              @ get_dummies ''unit'' (map unit_of (astype_str repr s1)),
            median (map Some vs1), median (map Some ps1))"
    "create_feature_df repr test_df (Some (median (map Some vs1))) (Some (median (map Some ps1))) =
       Inr ([(''pack_size'', FloatCol (fillna (median (map Some ps1)) (map Some ps2))),
             (''total_measure'', FloatCol (fillna (median (map Some vs1)) (map Some vs2)))]
              @ get_dummies ''unit'' (map unit_of (astype_str repr s2)),
            median (map Some vs1), median (map Some ps1))"
    "train_cols =
       [(''pack_size'', FloatCol (map Some ps1)), (''total_measure'', FloatCol (map Some vs1))]
       @ map (\<lambda>l. (''unit_'' @ l, BoolCol (map (\<lambda>u. u = l) (map unit_of (astype_str repr s1)))))
           (filter (\<lambda>l. l \<in> set (map unit_of (astype_str repr s2)))
              (sort (remdups (map unit_of (astype_str repr s1)))))"
    "test_cols =
       [(''pack_size'', FloatCol (fillna (median (map Some ps1)) (map Some ps2))),
        (''total_measure'', FloatCol (fillna (median (map Some vs1)) (map Some vs2)))]
       @ map (\<lambda>l. (''unit_'' @ l, BoolCol (map (\<lambda>u. u = l) (map unit_of (astype_str repr s2)))))
           (filter (\<lambda>l. l \<in> set (map unit_of (astype_str repr s2)))
              (sort (remdups (map unit_of (astype_str repr s1)))))"
proof -
  from assms obtain ftr mm mp where
    tr: "create_feature_df repr train_df None None = Inr (ftr, mm, mp)"
    by (auto simp: feature_extraction_unfold split: sum.splits)
  with assms obtain fte a b where
    te: "create_feature_df repr test_df (Some mm) (Some mp) = Inr (fte, a, b)"
    by (auto simp: feature_extraction_unfold split: sum.splits)
  from assms tr te have al: "align_inner ftr fte 0 = (train_cols, test_cols)"
    by (simp add: feature_extraction_unfold)
  from tr obtain s1 ps1 vs1 where 1:
    "get_column train_df ''catalog_content'' = Inr s1"
    "extract_features repr s1 = Inr (ps1, vs1, map unit_of (astype_str repr s1))"
    "mm = median (map Some vs1)" "mp = median (map Some ps1)"
    "ftr = [(''pack_size'', FloatCol (fillna mp (map Some ps1))),
            (''total_measure'', FloatCol (fillna mm (map Some vs1)))]
           @ get_dummies ''unit'' (map unit_of (astype_str repr s1))"
    by (elim create_feature_df_InrE) simp
  from te obtain s2 ps2 vs2 where 2:
    "get_column test_df ''catalog_content'' = Inr s2"
    "extract_features repr s2 = Inr (ps2, vs2, map unit_of (astype_str repr s2))"
    "a = mm" "b = mp"
    "fte = [(''pack_size'', FloatCol (fillna b (map Some ps2))),
            (''total_measure'', FloatCol (fillna a (map Some vs2)))]
           @ get_dummies ''unit'' (map unit_of (astype_str repr s2))"
    by (elim create_feature_df_InrE) simp
  have ftr: "ftr = [(''pack_size'', FloatCol (map Some ps1)), (''total_measure'', FloatCol (map Some vs1))]
           @ get_dummies ''unit'' (map unit_of (astype_str repr s1))"
    using 1(5) by (simp add: fillna_map_Some)
  have fte: "fte = [(''pack_size'', FloatCol (fillna (median (map Some ps1)) (map Some ps2))),
            (''total_measure'', FloatCol (fillna (median (map Some vs1)) (map Some vs2)))]
           @ get_dummies ''unit'' (map unit_of (astype_str repr s2))"
    using 2(3,4,5) 1(3,4) by simp
  from al have cols:
    "train_cols = fst (align_inner ftr fte 0)" "test_cols = snd (align_inner ftr fte 0)"
    by simp_all
  show thesis
  proof (rule that [OF 1(1) 1(2) 2(1) 2(2)])
    show "create_feature_df repr train_df None None =
       Inr ([(''pack_size'', FloatCol (map Some ps1)), (''total_measure'', FloatCol (map Some vs1))]
              @ get_dummies ''unit'' (map unit_of (astype_str repr s1)),
            median (map Some vs1), median (map Some ps1))"
      using tr ftr 1(3,4) by simp
    show "create_feature_df repr test_df (Some (median (map Some vs1))) (Some (median (map Some ps1))) =
       Inr ([(''pack_size'', FloatCol (fillna (median (map Some ps1)) (map Some ps2))),
             (''total_measure'', FloatCol (fillna (median (map Some vs1)) (map Some vs2)))]
              @ get_dummies ''unit'' (map unit_of (astype_str repr s2)),
            median (map Some vs1), median (map Some ps1))"
      using te fte 1(3,4) 2(3,4) by simp
    show "train_cols =
       [(''pack_size'', FloatCol (map Some ps1)), (''total_measure'', FloatCol (map Some vs1))]
       @ map (\<lambda>l. (''unit_'' @ l, BoolCol (map (\<lambda>u. u = l) (map unit_of (astype_str repr s1)))))
           (filter (\<lambda>l. l \<in> set (map unit_of (astype_str repr s2)))
              (sort (remdups (map unit_of (astype_str repr s1)))))"
      unfolding cols ftr fte align_feature_frames by simp
    show "test_cols =
       [(''pack_size'', FloatCol (fillna (median (map Some ps1)) (map Some ps2))),
        (''total_measure'', FloatCol (fillna (median (map Some vs1)) (map Some vs2)))]
       @ map (\<lambda>l. (''unit_'' @ l, BoolCol (map (\<lambda>u. u = l) (map unit_of (astype_str repr s2)))))
           (filter (\<lambda>l. l \<in> set (map unit_of (astype_str repr s2)))
              (sort (remdups (map unit_of (astype_str repr s1)))))"
      unfolding cols ftr fte align_feature_frames by simp
  qed
qed

lemma sort_remdups_two:
  assumes "set U = {''oz'', ''lb''}"
  shows "sort (remdups U) = [''lb'', ''oz'']"
proof -
  have "sort (remdups U) = sorted_list_of_set (set U)"
    by (rule sorted_list_of_set_sort_remdups [symmetric])
  also have "\<dots> = sorted_list_of_set {''oz'', ''lb''}" using assms by (rule arg_cong)
  also have "\<dots> = [''lb'', ''oz'']" by simp
  finally show ?thesis .
qed

lemma map_of_indicators:
  "map_of (map (\<lambda>l. (''unit_'' @ l, f l)) ls) (''unit_'' @ l) =
     (if l \<in> set ls then Some (f l) else None)"
  by (induction ls) auto

lemma distinct_unit_names:
  "distinct ls \<Longrightarrow> distinct (''pack_size'' # ''total_measure'' # map ((@) ''unit_'') ls)"
  by (auto simp: distinct_map inj_on_def)

lemma prepare_data_InrE:
  assumes "prepare_data repr train_df test_df = Inr (train_final, test_final)"
  obtains train_cols test_cols price log_price where
    "feature_extraction repr train_df test_df = Inr (train_cols, test_cols)"
    "get_column (filter (\<lambda>(n, _). n \<noteq> ''image_link'') train_df @ train_cols) ''price'' = Inr price"
    "log1p price = Inr log_price"
    "train_final =
       set_column (filter (\<lambda>(n, _). n \<noteq> ''image_link'') train_df @ train_cols)
         ''log_price'' log_price"
    "test_final = filter (\<lambda>(n, _). n \<noteq> ''image_link'') test_df @ test_cols"
proof -
  from assms obtain train_cols test_cols where
    fe: "feature_extraction repr train_df test_df = Inr (train_cols, test_cols)" and
    sp: "save_processed train_df test_df train_cols test_cols = Inr (train_final, test_final)"
    by (auto simp: prepare_data_def split: sum.splits)
  from sp have d1: "drop_column train_df ''image_link''
                      = Inr (filter (\<lambda>(n, _). n \<noteq> ''image_link'') train_df)"
    by (auto simp: save_processed_def drop_column_def split: sum.splits if_splits)
  from sp have d2: "drop_column test_df ''image_link''
                      = Inr (filter (\<lambda>(n, _). n \<noteq> ''image_link'') test_df)"
    by (auto simp: save_processed_def drop_column_def split: sum.splits if_splits)
  from sp d1 d2 obtain price where
    p: "get_column (filter (\<lambda>(n, _). n \<noteq> ''image_link'') train_df @ train_cols) ''price'' = Inr price"
    by (auto simp: save_processed_def concat_columns_def Let_def split: sum.splits)
  from sp d1 d2 p obtain log_price where l: "log1p price = Inr log_price"
    by (auto simp: save_processed_def concat_columns_def Let_def split: sum.splits)
  from sp d1 d2 p l have
    "train_final =
       set_column (filter (\<lambda>(n, _). n \<noteq> ''image_link'') train_df @ train_cols)
         ''log_price'' log_price"
    "test_final = filter (\<lambda>(n, _). n \<noteq> ''image_link'') test_df @ test_cols"
    by (auto simp: save_processed_def concat_columns_def Let_def)
  with fe p l that show thesis by blast
qed

lemma map_of_filter_name:
  "k \<noteq> d \<Longrightarrow> map_of (filter (\<lambda>(n, _). n \<noteq> d) df) k = map_of df k"
  by (induction df) auto

lemma map_of_set_column: "map_of (set_column df name col) name = Some col"
proof (cases "name \<in> set (names df)")
  case True
  then have "map_of (map (\<lambda>(n, c). if n = name then (n, col) else (n, c)) df) name = Some col"
    by (induction df) (auto simp: names_def)
  with True show ?thesis by (simp add: set_column_def)
next
  case False
  then have "map_of df name = None" by (simp add: names_def map_of_eq_None_iff)
  with False show ?thesis by (simp add: set_column_def map_add_def)
qed

lemma names_feature_cols:
  assumes "feature_extraction repr train_df test_df = Inr (train_cols, test_cols)"
  shows "\<exists>ls. names train_cols = ''pack_size'' # ''total_measure'' # map ((@) ''unit_'') ls \<and>
              names test_cols = ''pack_size'' # ''total_measure'' # map ((@) ''unit_'') ls"
proof -
  from assms obtain s1 ps1 vs1 s2 ps2 vs2 where
    tr: "train_cols =
       [(''pack_size'', FloatCol (map Some ps1)), (''total_measure'', FloatCol (map Some vs1))]
       @ map (\<lambda>l. (''unit_'' @ l, BoolCol (map (\<lambda>u. u = l) (map unit_of (astype_str repr s1)))))
           (filter (\<lambda>l. l \<in> set (map unit_of (astype_str repr s2)))
              (sort (remdups (map unit_of (astype_str repr s1)))))" and
    te: "test_cols =
       [(''pack_size'', FloatCol (fillna (median (map Some ps1)) (map Some ps2))),
        (''total_measure'', FloatCol (fillna (median (map Some vs1)) (map Some vs2)))]
       @ map (\<lambda>l. (''unit_'' @ l, BoolCol (map (\<lambda>u. u = l) (map unit_of (astype_str repr s2)))))
           (filter (\<lambda>l. l \<in> set (map unit_of (astype_str repr s2)))
              (sort (remdups (map unit_of (astype_str repr s1)))))"
    by (rule feature_extraction_InrE)
  let ?ls = "filter (\<lambda>l. l \<in> set (map unit_of (astype_str repr s2)))
              (sort (remdups (map unit_of (astype_str repr s1))))"
  have "names train_cols = ''pack_size'' # ''total_measure'' # map ((@) ''unit_'') ?ls"
    unfolding tr by (simp add: names_def comp_def)
  moreover have "names test_cols = ''pack_size'' # ''total_measure'' # map ((@) ''unit_'') ?ls"
    unfolding te by (simp add: names_def comp_def)
  ultimately show ?thesis by blast
qed

lemma names_filter_name:
  "k \<noteq> d \<Longrightarrow> k \<in> set (names (filter (\<lambda>(n, _). n \<noteq> d) df)) \<longleftrightarrow> k \<in> set (names df)"
  by (induction df) (auto simp: names_def)

lemma not_unit_name:
  "n \<in> set (''pack_size'' # ''total_measure'' # map ((@) ''unit_'') ls) \<Longrightarrow>
     n \<noteq> ''price'' \<and> n \<noteq> ''log_price'' \<and> n \<noteq> ''image_link''"
  by auto

lemma wf_frame_get_column:
  "wf_frame df \<Longrightarrow> get_column df k = Inr c \<Longrightarrow> col_len c = nrows df"
  by (auto simp: wf_frame_def get_column_def split: option.splits dest!: map_of_SomeD)

lemma col_len_log1p: "log1p c = Inr lp \<Longrightarrow> col_len lp = col_len c"
  by (cases c) auto

lemma set_column_lengths:
  assumes "\<forall>(n, c) \<in> set df. col_len c = m" and "col_len col = m"
  shows "\<forall>(n, c) \<in> set (set_column df name col). col_len c = m"
  using assms by (auto simp: set_column_def split: if_splits)

lemma nrows_uniform:
  "\<forall>(n, c) \<in> set df. col_len c = m \<Longrightarrow> df \<noteq> [] \<Longrightarrow> nrows df = m"
  by (cases df) (auto simp: nrows_def)

lemma set_column_not_Nil: "set_column df name col \<noteq> []"
  by (cases df) (auto simp: set_column_def names_def)

lemma filter_lengths:
  "wf_frame df \<Longrightarrow> \<forall>(n, c) \<in> set (filter P df). col_len c = nrows df"
  by (auto simp: wf_frame_def)



section \<open>The loading gate\<close>

lemma main_below_minimum:
  "nrows train_df < 75000 \<Longrightarrow>
     main repr (Loaded train_df test_df) = Exited (incomplete_message (nrows train_df))"
  by (simp add: main_def)

text \<open>
  The script saves both files exactly when both frames were read, train has at least 75,000
  rows, sections 3 and 4 run through without an exception, and neither final frame has a
  column name twice; what it saves are their final frames.
\<close>

lemma main_Saved_iff:
  "main repr (Loaded train_df test_df) = Saved train_final test_final \<longleftrightarrow>
     75000 \<le> nrows train_df \<and>
     prepare_data repr train_df test_df = Inr (train_final, test_final) \<and>
     distinct (names train_final) \<and> distinct (names test_final)"
  by (auto simp: main_def to_parquet_def split: sum.splits if_splits)

text \<open>
  A loaded column that already has the name of a feature column makes that name occur twice
  in the final frame, and the script ends with the exception of \<^verbatim>\<open>to_parquet\<close>.
\<close>

lemma main_duplicate_name:
  assumes "75000 \<le> nrows train_df"
      and "prepare_data repr train_df test_df = Inr (train_final, test_final)"
      and "\<not> distinct (names train_final)"
  shows "main repr (Loaded train_df test_df) = Raised (ValueError ''Duplicate column names found'')"
  using assms by (simp add: main_def to_parquet_def)

lemma messages_differ: "incomplete_message n \<noteq> load_failure_message e"
  by (simp add: incomplete_message_def load_failure_message_def)

text \<open>
  C8: when the loaded train frame has fewer than 75,000 rows, the run ends by
  \<^verbatim>\<open>sys.exit()\<close> in the loading section, after printing the incomplete-file lines. These
  differ from the lines printed for a load failure, whatever the failure was. The outcome
  does not depend on what the frames contain, and it is not the one that saves files.
\<close>

theorem incomplete_train_aborts:
  assumes "nrows train_df < 75000"
  shows "main repr (Loaded train_df test_df) = Exited (incomplete_message (nrows train_df)) \<and>
         incomplete_message (nrows train_df) \<noteq> load_failure_message e \<and>
         main repr (LoadError e) = Exited (load_failure_message e)"
  using assms by (simp add: main_below_minimum messages_differ) (simp add: main_def)

theorem incomplete_train_aborts_witness:
  "nrows [(''catalog_content'', ObjCol (replicate 50000 (Some ''value: .'')))] < 75000 \<and>
   main (\<lambda>_. ''0'')
     (Loaded [(''catalog_content'', ObjCol (replicate 50000 (Some ''value: .'')))] [])
     = Exited (incomplete_message 50000)"
  using incomplete_train_aborts
    [of "[(''catalog_content'', ObjCol (replicate 50000 (Some ''value: .'')))]"
        "\<lambda>_. ''0''" "[]"]
  by (simp add: nrows_def)

text \<open>
  C2: a train frame with no rows never reaches the computation of the medians: the run ends
  by \<^verbatim>\<open>sys.exit()\<close> at the row-count check, and no file is saved.
\<close>

theorem empty_train_aborts:
  assumes "nrows train_df = 0"
  shows "main repr (Loaded train_df test_df) = Exited (incomplete_message 0) \<and>
         main repr (Loaded train_df test_df) \<noteq> Saved train_final test_final"
  using assms main_below_minimum [of train_df repr test_df] by simp

theorem empty_train_aborts_witness:
  "nrows [(''catalog_content'', ObjCol [])] = 0 \<and>
   main (\<lambda>_. ''0'')
     (Loaded [(''catalog_content'', ObjCol [])] [(''catalog_content'', ObjCol [Some ''Unit: oz''])])
     = Exited (incomplete_message 0)"
  using empty_train_aborts
    [of "[(''catalog_content'', ObjCol [])]" "\<lambda>_. ''0''"
        "[(''catalog_content'', ObjCol [Some ''Unit: oz''])]"]
  by (simp add: nrows_def)

text \<open>
  Called on its own, \<^verbatim>\<open>create_feature_df\<close> does not raise on a frame without rows: both
  medians are NaN and nothing is filled.
\<close>

lemma create_feature_df_no_rows:
  "create_feature_df repr [(''catalog_content'', ObjCol [])] None None =
     Inr ([(''pack_size'', FloatCol []), (''total_measure'', FloatCol [])], None, None)"
  by code_simp

section \<open>What a match looks like\<close>

lemma matches_LitE:
  assumes "(g, r) \<in> set (matches (Lit w) s)"
  shows "g = None \<and> (\<exists>k. s = k @ r \<and> list_all2 (\<lambda>p c. atom_match (Ch p) c) w k)"
proof -
  from assms have a: "length w \<le> length s"
    and b: "list_all2 (\<lambda>p c. atom_match (Ch p) c) w (take (length w) s)"
    and c: "g = None" "r = drop (length w) s"
    by (auto simp del: atom_match.simps split: if_splits)
  have "s = take (length w) s @ r" using c by simp
  with b c show ?thesis by blast
qed

lemma take_takeWhile_all:
  "k \<le> length (takeWhile P s) \<Longrightarrow> \<forall>c \<in> set (take k s). P c"
proof -
  assume k: "k \<le> length (takeWhile P s)"
  have "take k (takeWhile P s @ dropWhile P s) = take k (takeWhile P s)"
    using k by (simp del: takeWhile_dropWhile_id)
  then have "take k s = take k (takeWhile P s)" by simp
  then have "set (take k s) \<subseteq> set (takeWhile P s)" by (metis set_take_subset)
  then show ?thesis by (auto dest: set_takeWhileD)
qed

lemma matches_StarE:
  assumes "(g, r) \<in> set (matches (Star a) s)"
  shows "g = None \<and> (\<exists>k. s = k @ r \<and> (\<forall>c \<in> set k. atom_match a c))"
proof -
  from assms obtain n where n': "n < Suc (length (takeWhile (atom_match a) s))"
    and g: "g = None" and r: "r = drop n s"
    by (auto simp del: upt_Suc)
  from n' have n: "n \<le> length (takeWhile (atom_match a) s)" by simp
  have "s = take n s @ r" using r by simp
  moreover have "\<forall>c \<in> set (take n s). atom_match a c"
    using n by (rule take_takeWhile_all)
  ultimately show ?thesis using g by blast
qed

lemma matches_PlusE:
  assumes "(g, r) \<in> set (matches (Plus a) s)"
  shows "g = None \<and> (\<exists>k. s = k @ r \<and> k \<noteq> [] \<and> (\<forall>c \<in> set k. atom_match a c))"
proof -
  from assms obtain n where n': "n < Suc (length (takeWhile (atom_match a) s))" "1 \<le> n"
    and g: "g = None" and r: "r = drop n s"
    by (auto simp del: upt_Suc)
  from n' have n: "n \<le> length (takeWhile (atom_match a) s)" "1 \<le> n" by simp_all
  have "s = take n s @ r" using r by simp
  moreover have "\<forall>c \<in> set (take n s). atom_match a c"
    using n(1) by (rule take_takeWhile_all)
  moreover have "take n s \<noteq> []"
  proof -
    have "length (takeWhile (atom_match a) s) \<le> length s" by (rule length_takeWhile_le)
    with n have "length (take n s) = n" by simp
    with n show ?thesis by auto
  qed
  ultimately show ?thesis using g by blast
qed

lemma matches_SeqE:
  assumes "(g, r) \<in> set (matches (Seq x y) s)"
  shows "\<exists>g1 s1 g2. (g1, s1) \<in> set (matches x s) \<and> (g2, r) \<in> set (matches y s1) \<and>
           g = (case g2 of None \<Rightarrow> g1 | Some _ \<Rightarrow> g2)"
  using assms by auto

lemma matches_GroupE:
  assumes "(g, r) \<in> set (matches (Group x) s)"
  shows "\<exists>g'. (g', r) \<in> set (matches x s) \<and> g = Some (take (length s - length r) s)"
  using assms by auto

lemma search_SomeE:
  assumes "search r s = Some m"
  shows "\<exists>pre s'. s = pre @ s' \<and> m \<in> set (matches r s')"
  using assms
proof (induction s)
  case Nil
  then show ?case by (auto split: list.splits)
next
  case (Cons c cs)
  show ?case
  proof (cases "matches r (c # cs)")
    case Nil
    with Cons.prems have "search r cs = Some m" by simp
    from Cons.IH [OF this] obtain pre s' where "cs = pre @ s'" "m \<in> set (matches r s')" by blast
    then have "c # cs = (c # pre) @ s'" by simp
    then show ?thesis using \<open>m \<in> set (matches r s')\<close> by blast
  next
    case (Cons m' ms)
    with Cons.prems have "m = m'" by simp
    then have "m \<in> set (matches r (c # cs))" using Cons by simp
    moreover have "c # cs = [] @ (c # cs)" by simp
    ultimately show ?thesis by blast
  qed
qed

lemma list_all2_lower:
  "list_all2 (\<lambda>p c. atom_match (Ch p) c) w k \<Longrightarrow> str_lower k = str_lower w"
  by (induction rule: list_all2_induct) (simp_all add: str_lower_def)

lemma unit_regex_shape:
  assumes "(g, r) \<in> set (matches unit_regex s)"
  shows "\<exists>key ws cap. g = Some cap \<and> s = key @ ws @ cap @ r \<and> str_lower key = ''unit:'' \<and>
           (\<forall>c \<in> set ws. is_space c) \<and> cap \<noteq> [] \<and> (\<forall>c \<in> set cap. is_word c \<or> is_space c)"
proof -
  from assms obtain g1 s1 g2 where
    lit: "(g1, s1) \<in> set (matches (Lit ''unit:'') s)" and
    tl: "(g2, r) \<in> set (matches (Seq (Star Space) (Group (Plus (Either WordCh Space)))) s1)" and
    g: "g = (case g2 of None \<Rightarrow> g1 | Some _ \<Rightarrow> g2)"
    unfolding unit_regex_def by (blast dest: matches_SeqE)
  from tl obtain g3 s2 g4 where
    sp: "(g3, s2) \<in> set (matches (Star Space) s1)" and
    gr: "(g4, r) \<in> set (matches (Group (Plus (Either WordCh Space))) s2)" and
    g2: "g2 = (case g4 of None \<Rightarrow> g3 | Some _ \<Rightarrow> g4)"
    by (blast dest: matches_SeqE)
  from gr obtain g5 where
    pl: "(g5, r) \<in> set (matches (Plus (Either WordCh Space)) s2)" and
    g4: "g4 = Some (take (length s2 - length r) s2)"
    by (blast dest: matches_GroupE)
  from matches_LitE [OF lit] obtain key where
    key: "s = key @ s1" "list_all2 (\<lambda>p c. atom_match (Ch p) c) ''unit:'' key" by blast
  from matches_StarE [OF sp] obtain ws where
    ws: "s1 = ws @ s2" "\<forall>c \<in> set ws. atom_match Space c" by blast
  from matches_PlusE [OF pl] obtain cap where
    cap: "s2 = cap @ r" "cap \<noteq> []" "\<forall>c \<in> set cap. atom_match (Either WordCh Space) c" by blast
  have "str_lower key = str_lower ''unit:''" using key(2) by (rule list_all2_lower)
  also have "\<dots> = ''unit:''" by code_simp
  finally have k: "str_lower key = ''unit:''" .
  have "g = Some cap" using g g2 g4 cap(1) by simp
  moreover have "s = key @ ws @ cap @ r" using key(1) ws(1) cap(1) by simp
  ultimately show ?thesis using k ws(2) cap(2,3) by auto
qed

lemma str_extract_unit_shape:
  assumes "str_extract unit_regex t = Some cap"
  shows "cap \<noteq> [] \<and> (\<forall>c \<in> set cap. is_word c \<or> is_space c) \<and>
         (\<exists>pre key ws post. t = pre @ key @ ws @ cap @ post \<and> str_lower key = ''unit:'' \<and>
            (\<forall>c \<in> set ws. is_space c))"
proof -
  from assms obtain r where "search unit_regex t = Some (Some cap, r)"
    by (auto simp: str_extract_def split: option.splits)
  from search_SomeE [OF this] obtain pre s' where
    t: "t = pre @ s'" and m: "(Some cap, r) \<in> set (matches unit_regex s')" by blast
  from unit_regex_shape [OF m] obtain key ws where
    "s' = key @ ws @ cap @ r" "str_lower key = ''unit:''" "\<forall>c \<in> set ws. is_space c"
    "cap \<noteq> []" "\<forall>c \<in> set cap. is_word c \<or> is_space c" by auto
  with t show ?thesis by blast
qed

text \<open>
  Each pattern starts with a literal, so it can only match where the text has that literal's
  first letter: a text without the letters p, c, v and u, in either case, has no match of any
  of the three patterns.
\<close>

lemma search_None_first_char:
  assumes "\<And>c cs. \<not> P c \<Longrightarrow> matches r (c # cs) = []"
      and "matches r [] = []"
      and "\<forall>c \<in> set t. \<not> P c"
  shows "search r t = None"
  using assms(3) by (induction t) (simp_all add: assms(1,2))

lemma lower_literals:
  "py_lower CHR ''p'' = CHR ''p''" "py_lower CHR ''c'' = CHR ''c''"
  "py_lower CHR ''v'' = CHR ''v''" "py_lower CHR ''u'' = CHR ''u''"
  by code_simp+

lemma matches_Lit_Cons_mismatch:
  "py_lower c \<noteq> py_lower p \<Longrightarrow> matches (Lit (p # w)) (c # cs) = []"
  by simp

lemma matches_Seq_Nil: "matches r1 s = [] \<Longrightarrow> matches (Seq r1 r2) s = []"
  by simp

lemma markers_need_their_letter:
  assumes "\<forall>c \<in> set t. py_lower c \<noteq> CHR ''p'' \<and> py_lower c \<noteq> CHR ''c'' \<and>
                        py_lower c \<noteq> CHR ''v'' \<and> py_lower c \<noteq> CHR ''u''"
  shows "str_extract pack_regex t = None \<and> str_extract value_regex t = None \<and>
         str_extract unit_regex t = None"
proof -
  have p: "search pack_regex t = None"
  proof (rule search_None_first_char
      [where P = "\<lambda>c. py_lower c = CHR ''p'' \<or> py_lower c = CHR ''c''"])
    fix c cs assume "\<not> (py_lower c = CHR ''p'' \<or> py_lower c = CHR ''c'')"
    then have "matches (Alt (Lit ''pack of'') (Alt (Lit ''count'')
                 (Alt (Lit ''per case'') (Lit ''pack'')))) (c # cs) = []"
      by (simp add: lower_literals)
    then show "matches pack_regex (c # cs) = []"
      unfolding pack_regex_def by (rule matches_Seq_Nil)
  next
    show "matches pack_regex [] = []" by code_simp
  next
    show "\<forall>c \<in> set t. \<not> (py_lower c = CHR ''p'' \<or> py_lower c = CHR ''c'')"
      using assms by blast
  qed
  have v: "search value_regex t = None"
  proof (rule search_None_first_char [where P = "\<lambda>c. py_lower c = CHR ''v''"])
    fix c cs assume "\<not> py_lower c = CHR ''v''"
    then have "matches (Lit ''value:'') (c # cs) = []" by (simp add: lower_literals)
    then show "matches value_regex (c # cs) = []"
      unfolding value_regex_def by (rule matches_Seq_Nil)
  next
    show "matches value_regex [] = []" by code_simp
  next
    show "\<forall>c \<in> set t. \<not> py_lower c = CHR ''v''" using assms by blast
  qed
  have u: "search unit_regex t = None"
  proof (rule search_None_first_char [where P = "\<lambda>c. py_lower c = CHR ''u''"])
    fix c cs assume "\<not> py_lower c = CHR ''u''"
    then have "matches (Lit ''unit:'') (c # cs) = []" by (simp add: lower_literals)
    then show "matches unit_regex (c # cs) = []"
      unfolding unit_regex_def by (rule matches_Seq_Nil)
  next
    show "matches unit_regex [] = []" by code_simp
  next
    show "\<forall>c \<in> set t. \<not> py_lower c = CHR ''u''" using assms by blast
  qed
  from p v u show ?thesis by (simp add: str_extract_def)
qed

section \<open>Extraction on single texts\<close>

text \<open>
  C10: extraction is not total. In the text \<^verbatim>\<open>value: .\<close> the value pattern captures the
  lone dot, which is not a number, and \<^verbatim>\<open>extract_features\<close> raises \<^verbatim>\<open>ValueError\<close>.
\<close>

theorem extract_features_raises:
  "str_extract value_regex ''value: .'' = Some ''.'' \<and>
   py_float ''.'' = Inl (ValueError ''.'') \<and>
   extract_features repr (ObjCol [Some ''value: .'']) = Inl (ValueError ''.'')"
  by code_simp

text \<open>
  C3: on the text \<^verbatim>\<open>12 per case\<close> the pack pattern finds nothing, since it wants the number
  after the qualifier word, and extraction gives the pack size 1, the measure 0 and the unit
  \<^verbatim>\<open>unknown\<close>.
\<close>

theorem twelve_per_case:
  "str_extract pack_regex ''12 per case'' = None \<and>
   extract_features repr (ObjCol [Some ''12 per case'']) = Inr ([1], [0], [''unknown''])"
  by code_simp


text \<open>
  C6: a text in which none of the three patterns finds a match gives the pack size 1, the
  measure 0 and the unit \<^verbatim>\<open>unknown\<close> in lower case (the script fills in \<^verbatim>\<open>Unknown\<close> and
  lower-cases it afterwards), and extraction of such a text does not raise.
\<close>

theorem defaults_without_markers:
  assumes "str_extract pack_regex t = None"
      and "str_extract value_regex t = None"
      and "str_extract unit_regex t = None"
  shows "pack_size_of t = Inr 1 \<and> value_of t = Inr 0 \<and> unit_of t = ''unknown'' \<and>
         extract_features repr (ObjCol [Some t]) = Inr ([1], [0], [''unknown''])"
proof -
  have u: "str_lower (str_strip ''Unknown'') = ''unknown''" by code_simp
  from assms u show ?thesis
    by (simp add: extract_features_def pack_size_of_def value_of_def unit_of_def)
qed

theorem defaults_without_markers_witness:
  "str_extract pack_regex ''Organic green tea, 20 bags'' = None \<and>
   str_extract value_regex ''Organic green tea, 20 bags'' = None \<and>
   str_extract unit_regex ''Organic green tea, 20 bags'' = None \<and>
   extract_features (\<lambda>_. ''0'') (ObjCol [Some ''Organic green tea, 20 bags''])
     = Inr ([1], [0], [''unknown''])"
proof -
  have a: "str_extract pack_regex ''Organic green tea, 20 bags'' = None" by code_simp
  have b: "str_extract value_regex ''Organic green tea, 20 bags'' = None" by code_simp
  have c: "str_extract unit_regex ''Organic green tea, 20 bags'' = None" by code_simp
  from defaults_without_markers [OF a b c, of "\<lambda>_. ''0''"] a b c show ?thesis by simp
qed

text \<open>
  C7, as the script has it: without a match the unit is \<^verbatim>\<open>unknown\<close>; with a match it is
  the captured run, stripped and lower-cased. That run is not empty; each of its characters is
  one that \<^verbatim>\<open>\w\<close> or \<^verbatim>\<open>\s\<close> matches, that is a letter, a decimal digit, one of the other
  digit or numeric characters (such as the superscript two or the fraction one half), the
  underscore, or whitespace; and it follows, after optional whitespace, a key that reads
  \<^verbatim>\<open>unit:\<close> when lower-cased.
\<close>

theorem unit_token_shape:
  "(case str_extract unit_regex t of
      None \<Rightarrow> unit_of t = ''unknown''
    | Some cap \<Rightarrow>
        unit_of t = str_lower (str_strip cap) \<and> cap \<noteq> [] \<and>
        (\<forall>c \<in> set cap. is_alpha c \<or> is_digit c \<or> is_other_numeric c \<or> c = CHR ''_'' \<or>
                        is_space c) \<and>
        (\<exists>pre key ws post. t = pre @ key @ ws @ cap @ post \<and> str_lower key = ''unit:'' \<and>
           (\<forall>c \<in> set ws. is_space c)))"
proof (cases "str_extract unit_regex t")
  case None
  have "str_lower (str_strip ''Unknown'') = ''unknown''" by code_simp
  with None show ?thesis by (simp add: unit_of_def)
next
  case (Some cap)
  from str_extract_unit_shape [OF Some] have
    n: "cap \<noteq> []" and
    w: "\<forall>c \<in> set cap. is_word c \<or> is_space c" and
    k: "\<exists>pre key ws post. t = pre @ key @ ws @ cap @ post \<and> str_lower key = ''unit:'' \<and>
           (\<forall>c \<in> set ws. is_space c)"
    by blast+
  from w have c: "\<forall>c \<in> set cap. is_alpha c \<or> is_digit c \<or> is_other_numeric c \<or> c = CHR ''_'' \<or>
                        is_space c"
    unfolding is_word_def by blast
  have u: "unit_of t = str_lower (str_strip cap)" using Some by (simp add: unit_of_def)
  from u n c k have
    "unit_of t = str_lower (str_strip cap) \<and> cap \<noteq> [] \<and>
        (\<forall>c \<in> set cap. is_alpha c \<or> is_digit c \<or> is_other_numeric c \<or> c = CHR ''_'' \<or>
                        is_space c) \<and>
        (\<exists>pre key ws post. t = pre @ key @ ws @ cap @ post \<and> str_lower key = ''unit:'' \<and>
           (\<forall>c \<in> set ws. is_space c))"
    by (intro conjI)
  with Some show ?thesis by simp
qed

theorem unit_token_shape_witness:
  "str_extract unit_regex ''Net Unit:  Fl Oz 12 '' = Some ''Fl Oz 12 '' \<and>
   unit_of ''Net Unit:  Fl Oz 12 '' = ''fl oz 12'' \<and>
   (\<exists>pre key ws post. ''Net Unit:  Fl Oz 12 '' = pre @ key @ ws @ ''Fl Oz 12 '' @ post \<and>
      str_lower key = ''unit:'' \<and> list_all is_space ws)"
proof -
  have e: "str_extract unit_regex ''Net Unit:  Fl Oz 12 '' = Some ''Fl Oz 12 ''" by code_simp
  have l: "str_lower (str_strip ''Fl Oz 12 '') = ''fl oz 12''" by code_simp
  from unit_token_shape [of "''Net Unit:  Fl Oz 12 ''"] e l show ?thesis
    by (simp add: list_all_iff)
qed

text \<open>
  The captured run need not consist of letters and spaces: in \<^verbatim>\<open>unit: 5\<close> it is the digit 5.
\<close>

theorem unit_token_digit_counterexample:
  "str_extract unit_regex ''unit: 5'' = Some ''5'' \<and> unit_of ''unit: 5'' = ''5'' \<and>
   \<not> is_alpha CHR ''5'' \<and> \<not> is_space CHR ''5''"
  by code_simp

text \<open>
  Nor need it consist of letters, decimal digits, underscores and whitespace: the fraction one
  half (code point 189) is none of these, and \<^verbatim>\<open>\w\<close> matches it.
\<close>

lemma unit_token_fraction:
  "str_extract unit_regex (''unit: '' @ [CHR 0xBD]) = Some [CHR 0xBD] \<and>
   unit_of (''unit: '' @ [CHR 0xBD]) = [CHR 0xBD] \<and>
   is_other_numeric (CHR 0xBD) \<and> \<not> is_alpha (CHR 0xBD) \<and> \<not> is_digit (CHR 0xBD) \<and>
   \<not> is_space (CHR 0xBD) \<and> CHR 0xBD \<noteq> CHR ''_''"
  by code_simp


section \<open>Fitting on train, applying to test, and reconciling\<close>



text \<open>
  In a run of the script the fill finds nothing to do: extraction has already put 1 and 0
  where a pattern found nothing, so no entry of the two columns is missing, and with pandas's
  fill they come out as extracted.
\<close>

lemma script_fill_changes_nothing:
  assumes "feature_extraction repr train_df test_df = Inr (train_cols, test_cols)"
  shows "\<exists>s2 ps2 vs2 us2.
           get_column test_df ''catalog_content'' = Inr s2 \<and>
           extract_features repr s2 = Inr (ps2, vs2, us2) \<and>
           map_of test_cols ''total_measure'' = Some (FloatCol (map Some vs2)) \<and>
           map_of test_cols ''pack_size'' = Some (FloatCol (map Some ps2))"
proof -
  from assms obtain s1 ps1 vs1 s2 ps2 vs2 where f:
    "get_column test_df ''catalog_content'' = Inr s2"
    "extract_features repr s2 = Inr (ps2, vs2, map unit_of (astype_str repr s2))"
    "test_cols =
       [(''pack_size'', FloatCol (fillna (median (map Some ps1)) (map Some ps2))),
        (''total_measure'', FloatCol (fillna (median (map Some vs1)) (map Some vs2)))]
       @ map (\<lambda>l. (''unit_'' @ l, BoolCol (map (\<lambda>u. u = l) (map unit_of (astype_str repr s2)))))
           (filter (\<lambda>l. l \<in> set (map unit_of (astype_str repr s2)))
              (sort (remdups (map unit_of (astype_str repr s1)))))"
    by (elim feature_extraction_InrE)
  have "map_of test_cols ''total_measure'' = Some (FloatCol (map Some vs2))"
       "map_of test_cols ''pack_size'' = Some (FloatCol (map Some ps2))"
    unfolding f(3) by (simp_all add: fillna_map_Some)
  with f(1,2) show ?thesis by blast
qed

text \<open>
  C4: aligning the feature frames of train and test gives both the same column names in the
  same order, without repetition: exactly the names the two frames share. Each column kept is
  the frame's own column of that name, so nothing is filled in. The names are the two numeric
  ones followed by the indicators of the units seen in both frames, in sorted order; with the
  units oz and lb in train and oz and ml in test, the only indicator left is that of oz.
\<close>

theorem reconciliation_is_intersection:
  assumes "create_feature_df repr train_df mm1 mp1 = Inr (train_features_df, a1, b1)"
      and "create_feature_df repr test_df mm2 mp2 = Inr (test_features_df, a2, b2)"
      and "align_inner train_features_df test_features_df 0 = (train_cols, test_cols)"
  shows "names train_cols = names test_cols \<and> distinct (names train_cols) \<and>
         set (names train_cols) = set (names train_features_df) \<inter> set (names test_features_df) \<and>
         (\<forall>n \<in> set (names train_cols).
            map_of train_cols n = map_of train_features_df n \<and>
            map_of test_cols n = map_of test_features_df n) \<and>
         (\<exists>s1 s2.
            get_column train_df ''catalog_content'' = Inr s1 \<and>
            get_column test_df ''catalog_content'' = Inr s2 \<and>
            names train_cols =
              ''pack_size'' # ''total_measure'' #
              map ((@) ''unit_'')
                (filter (\<lambda>l. l \<in> unit_of ` set (astype_str repr s2))
                   (sort (remdups (map unit_of (astype_str repr s1))))) \<and>
            (unit_of ` set (astype_str repr s1) = {''oz'', ''lb''} \<and>
             unit_of ` set (astype_str repr s2) = {''oz'', ''ml''} \<longrightarrow>
               names train_cols = [''pack_size'', ''total_measure'', ''unit_oz'']))"
proof -
  from assms(1) obtain s1 p1 v1 where 1:
    "get_column train_df ''catalog_content'' = Inr s1"
    "train_features_df = [(''pack_size'', FloatCol p1), (''total_measure'', FloatCol v1)]
           @ get_dummies ''unit'' (map unit_of (astype_str repr s1))"
    by (elim create_feature_df_InrE) blast
  from assms(2) obtain s2 p2 v2 where 2:
    "get_column test_df ''catalog_content'' = Inr s2"
    "test_features_df = [(''pack_size'', FloatCol p2), (''total_measure'', FloatCol v2)]
           @ get_dummies ''unit'' (map unit_of (astype_str repr s2))"
    by (elim create_feature_df_InrE) blast
  let ?U1 = "map unit_of (astype_str repr s1)"
  let ?U2 = "map unit_of (astype_str repr s2)"
  let ?common = "filter (\<lambda>l. l \<in> set ?U2) (sort (remdups ?U1))"
  from assms(3) have
    tr: "train_cols = [(''pack_size'', FloatCol p1), (''total_measure'', FloatCol v1)]
           @ map (\<lambda>l. (''unit_'' @ l, BoolCol (map (\<lambda>u. u = l) ?U1))) ?common" and
    te: "test_cols = [(''pack_size'', FloatCol p2), (''total_measure'', FloatCol v2)]
           @ map (\<lambda>l. (''unit_'' @ l, BoolCol (map (\<lambda>u. u = l) ?U2))) ?common"
    unfolding 1(2) 2(2) align_feature_frames by simp_all
  have ntr: "names train_cols = ''pack_size'' # ''total_measure'' # map ((@) ''unit_'') ?common"
    unfolding tr by (simp add: names_def comp_def)
  have nte: "names test_cols = ''pack_size'' # ''total_measure'' # map ((@) ''unit_'') ?common"
    unfolding te by (simp add: names_def comp_def)
  have n1: "names train_features_df =
      ''pack_size'' # ''total_measure'' # map ((@) ''unit_'') (sort (remdups ?U1))"
    unfolding 1(2) using names_unit_dummies [of ?U1] by (simp add: names_def)
  have n2: "names test_features_df =
      ''pack_size'' # ''total_measure'' # map ((@) ''unit_'') (sort (remdups ?U2))"
    unfolding 2(2) using names_unit_dummies [of ?U2] by (simp add: names_def)
  have A: "names train_cols = names test_cols" using ntr nte by simp
  have B: "distinct (names train_cols)"
    unfolding ntr by (rule distinct_unit_names) simp
  have C: "set (names train_cols) = set (names train_features_df) \<inter> set (names test_features_df)"
    unfolding ntr n1 n2 by auto
  have D: "\<forall>n \<in> set (names train_cols).
            map_of train_cols n = map_of train_features_df n \<and>
            map_of test_cols n = map_of test_features_df n"
  proof
    fix n assume "n \<in> set (names train_cols)"
    then consider "n = ''pack_size''" | "n = ''total_measure''"
      | l where "n = ''unit_'' @ l" "l \<in> set ?U1" "l \<in> set ?U2"
      unfolding ntr by auto
    then show "map_of train_cols n = map_of train_features_df n \<and>
               map_of test_cols n = map_of test_features_df n"
    proof cases
      case 1
      then show ?thesis unfolding tr te \<open>train_features_df = _\<close> \<open>test_features_df = _\<close> by simp
    next
      case 2
      then show ?thesis unfolding tr te \<open>train_features_df = _\<close> \<open>test_features_df = _\<close> by simp
    next
      case 3
      have a: "map_of (map (\<lambda>l. (''unit_'' @ l, BoolCol (map (\<lambda>u. u = l) ?U1))) ?common) (''unit_'' @ l)
                = Some (BoolCol (map (\<lambda>u. u = l) ?U1))"
        using 3(2,3) by (simp add: map_of_indicators del: set_map append.simps)
      have b: "map_of (map (\<lambda>l. (''unit_'' @ l, BoolCol (map (\<lambda>u. u = l) ?U2))) ?common) (''unit_'' @ l)
                = Some (BoolCol (map (\<lambda>u. u = l) ?U2))"
        using 3(2,3) by (simp add: map_of_indicators del: set_map append.simps)
      have c: "map_of (get_dummies ''unit'' ?U1) (''unit_'' @ l) = Some (BoolCol (map (\<lambda>u. u = l) ?U1))"
        using 3(2) by (simp add: map_of_unit_dummies del: set_map append.simps)
      have d: "map_of (get_dummies ''unit'' ?U2) (''unit_'' @ l) = Some (BoolCol (map (\<lambda>u. u = l) ?U2))"
        using 3(3) by (simp add: map_of_unit_dummies del: set_map append.simps)
      have ne: "''unit_'' @ l \<noteq> ''pack_size''" "''unit_'' @ l \<noteq> ''total_measure''" by simp_all
      show ?thesis
        unfolding tr te \<open>train_features_df = _\<close> \<open>test_features_df = _\<close> 3(1)
        using a b c d ne by (simp del: append.simps add: map_of_append) 
    qed
  qed
  have E1: "names train_cols =
              ''pack_size'' # ''total_measure'' #
              map ((@) ''unit_'')
                (filter (\<lambda>l. l \<in> unit_of ` set (astype_str repr s2))
                   (sort (remdups (map unit_of (astype_str repr s1)))))"
    unfolding ntr by simp
  have E2: "names train_cols = [''pack_size'', ''total_measure'', ''unit_oz'']"
    if h: "unit_of ` set (astype_str repr s1) = {''oz'', ''lb''}"
          "unit_of ` set (astype_str repr s2) = {''oz'', ''ml''}"
  proof -
    have "set ?U1 = {''oz'', ''lb''}" using h(1) by simp
    then have s: "sort (remdups ?U1) = [''lb'', ''oz'']" by (rule sort_remdups_two)
    have "set ?U2 = {''oz'', ''ml''}" using h(2) by simp
    then have "?common = [''oz'']" unfolding s by simp
    then show ?thesis unfolding ntr by simp
  qed
  have E: "\<exists>s1 s2.
            get_column train_df ''catalog_content'' = Inr s1 \<and>
            get_column test_df ''catalog_content'' = Inr s2 \<and>
            names train_cols =
              ''pack_size'' # ''total_measure'' #
              map ((@) ''unit_'')
                (filter (\<lambda>l. l \<in> unit_of ` set (astype_str repr s2))
                   (sort (remdups (map unit_of (astype_str repr s1))))) \<and>
            (unit_of ` set (astype_str repr s1) = {''oz'', ''lb''} \<and>
             unit_of ` set (astype_str repr s2) = {''oz'', ''ml''} \<longrightarrow>
               names train_cols = [''pack_size'', ''total_measure'', ''unit_oz''])"
    apply (rule exI [of _ s1])
    apply (rule exI [of _ s2])
    using 1(1) 2(1) E1 E2 apply (intro conjI impI)
       apply assumption
      apply assumption
     apply assumption
    apply (elim conjE)
    apply assumption
    done
  from A B C D E show ?thesis by (intro conjI)
qed

theorem reconciliation_is_intersection_witness:
  "create_feature_df (\<lambda>_. ''0'')
     [(''catalog_content'', ObjCol [Some ''Unit: oz'', Some ''Unit: lb''])] None None
   = Inr ([(''pack_size'', FloatCol [Some 1, Some 1]),
           (''total_measure'', FloatCol [Some 0, Some 0]),
           (''unit_lb'', BoolCol [False, True]),
           (''unit_oz'', BoolCol [True, False])], Some 0, Some 1) \<and>
   create_feature_df (\<lambda>_. ''0'')
     [(''catalog_content'', ObjCol [Some ''Unit: oz'', Some ''Unit: ml''])] (Some (Some 0)) (Some (Some 1))
   = Inr ([(''pack_size'', FloatCol [Some 1, Some 1]),
           (''total_measure'', FloatCol [Some 0, Some 0]),
           (''unit_ml'', BoolCol [False, True]),
           (''unit_oz'', BoolCol [True, False])], Some 0, Some 1) \<and>
   align_inner
     [(''pack_size'', FloatCol [Some 1, Some 1]),
      (''total_measure'', FloatCol [Some 0, Some 0]),
      (''unit_lb'', BoolCol [False, True]),
      (''unit_oz'', BoolCol [True, False])]
     [(''pack_size'', FloatCol [Some 1, Some 1]),
      (''total_measure'', FloatCol [Some 0, Some 0]),
      (''unit_ml'', BoolCol [False, True]),
      (''unit_oz'', BoolCol [True, False])] 0
   = ([(''pack_size'', FloatCol [Some 1, Some 1]),
       (''total_measure'', FloatCol [Some 0, Some 0]),
       (''unit_oz'', BoolCol [True, False])],
      [(''pack_size'', FloatCol [Some 1, Some 1]),
       (''total_measure'', FloatCol [Some 0, Some 0]),
       (''unit_oz'', BoolCol [True, False])]) \<and>
   names [(''pack_size'', FloatCol [Some 1, Some 1]),
          (''total_measure'', FloatCol [Some 0, Some 0]),
          (''unit_oz'', BoolCol [True, False])]
   = [''pack_size'', ''total_measure'', ''unit_oz'']"
proof -
  let ?tr = "[(''catalog_content'', ObjCol [Some ''Unit: oz'', Some ''Unit: lb''])]"
  let ?te = "[(''catalog_content'', ObjCol [Some ''Unit: oz'', Some ''Unit: ml''])]"
  let ?F1 = "[(''pack_size'', FloatCol [Some 1, Some 1]),
           (''total_measure'', FloatCol [Some 0, Some 0]),
           (''unit_lb'', BoolCol [False, True]),
           (''unit_oz'', BoolCol [True, False])]"
  let ?F2 = "[(''pack_size'', FloatCol [Some 1, Some 1]),
           (''total_measure'', FloatCol [Some 0, Some 0]),
           (''unit_ml'', BoolCol [False, True]),
           (''unit_oz'', BoolCol [True, False])]"
  let ?A = "[(''pack_size'', FloatCol [Some 1, Some 1]),
       (''total_measure'', FloatCol [Some 0, Some 0]),
       (''unit_oz'', BoolCol [True, False])]"
  have h1: "create_feature_df (\<lambda>_. ''0'') ?tr None None = Inr (?F1, Some 0, Some 1)"
    by code_simp
  have h2: "create_feature_df (\<lambda>_. ''0'') ?te (Some (Some 0)) (Some (Some 1)) = Inr (?F2, Some 0, Some 1)"
    by code_simp
  have h3: "align_inner ?F1 ?F2 0 = (?A, ?A)" by code_simp
  have gc: "get_column ?tr ''catalog_content'' = Inr (ObjCol [Some ''Unit: oz'', Some ''Unit: lb''])"
           "get_column ?te ''catalog_content'' = Inr (ObjCol [Some ''Unit: oz'', Some ''Unit: ml''])"
    by code_simp+
  have m1: "map unit_of (astype_str (\<lambda>_. ''0'') (ObjCol [Some ''Unit: oz'', Some ''Unit: lb'']))
             = [''oz'', ''lb'']"
    by code_simp
  have m2: "map unit_of (astype_str (\<lambda>_. ''0'') (ObjCol [Some ''Unit: oz'', Some ''Unit: ml'']))
             = [''oz'', ''ml'']"
    by code_simp
  have "set (map unit_of (astype_str (\<lambda>_. ''0'') (ObjCol [Some ''Unit: oz'', Some ''Unit: lb''])))
          = {''oz'', ''lb''}"
    unfolding m1 by simp
  then have u1: "unit_of ` set (astype_str (\<lambda>_. ''0'') (ObjCol [Some ''Unit: oz'', Some ''Unit: lb'']))
             = {''oz'', ''lb''}"
    by (simp only: set_map)
  have "set (map unit_of (astype_str (\<lambda>_. ''0'') (ObjCol [Some ''Unit: oz'', Some ''Unit: ml''])))
          = {''oz'', ''ml''}"
    unfolding m2 by simp
  then have u2: "unit_of ` set (astype_str (\<lambda>_. ''0'') (ObjCol [Some ''Unit: oz'', Some ''Unit: ml'']))
             = {''oz'', ''ml''}"
    by (simp only: set_map)
  from reconciliation_is_intersection [OF h1 h2 h3] obtain s1 s2 where
    s: "get_column ?tr ''catalog_content'' = Inr s1" "get_column ?te ''catalog_content'' = Inr s2"
       "unit_of ` set (astype_str (\<lambda>_. ''0'') s1) = {''oz'', ''lb''} \<and>
        unit_of ` set (astype_str (\<lambda>_. ''0'') s2) = {''oz'', ''ml''} \<longrightarrow>
          names ?A = [''pack_size'', ''total_measure'', ''unit_oz'']"
    by (elim exE conjE) (rule that; assumption)
  from s(1) have e1: "s1 = ObjCol [Some ''Unit: oz'', Some ''Unit: lb'']"
    by (simp only: gc sum.inject)
  from s(2) have e2: "s2 = ObjCol [Some ''Unit: oz'', Some ''Unit: ml'']"
    by (simp only: gc sum.inject)
  from s(3) have n: "names ?A = [''pack_size'', ''total_measure'', ''unit_oz'']"
    unfolding e1 e2 using u1 u2 by (elim impE) (rule conjI)
  from h1 h2 h3 n show ?thesis by (intro conjI)
qed

section \<open>The final frames\<close>

text \<open>
  C5: when the script gets as far as the final frames, each of them has as many rows as the
  frame it was made from, in every column. The final frame is the loaded frame without its
  \<^verbatim>\<open>image_link\<close> column, its other columns as they were, followed by the feature columns,
  and each feature column is computed entry by entry from the texts in their order: the pack
  size and the measure of row \<open>i\<close> are those of text \<open>i\<close>, and an indicator says whether
  the unit of text \<open>i\<close> is the indicator's unit. The train frame also gets the
  \<^verbatim>\<open>log_price\<close> column.
\<close>

theorem rows_preserved:
  assumes "wf_frame train_df" and "wf_frame test_df"
      and "prepare_data repr train_df test_df = Inr (train_final, test_final)"
  shows "nrows train_final = nrows train_df \<and> nrows test_final = nrows test_df \<and>
         (\<forall>(n, c) \<in> set train_final. col_len c = nrows train_df) \<and>
         (\<forall>(n, c) \<in> set test_final. col_len c = nrows test_df) \<and>
         (\<exists>s1 s2 ps1 vs1 ps2 vs2 common log_price.
            get_column train_df ''catalog_content'' = Inr s1 \<and>
            get_column test_df ''catalog_content'' = Inr s2 \<and>
            map pack_size_of (astype_str repr s1) = map Inr ps1 \<and>
            map value_of (astype_str repr s1) = map Inr vs1 \<and>
            map pack_size_of (astype_str repr s2) = map Inr ps2 \<and>
            map value_of (astype_str repr s2) = map Inr vs2 \<and>
            train_final =
              set_column
                (filter (\<lambda>(n, _). n \<noteq> ''image_link'') train_df
                 @ [(''pack_size'', FloatCol (map Some ps1)),
                    (''total_measure'', FloatCol (map Some vs1))]
                 @ map (\<lambda>l. (''unit_'' @ l, BoolCol (map (\<lambda>t. unit_of t = l) (astype_str repr s1))))
                     common)
                ''log_price'' log_price \<and>
            test_final =
              filter (\<lambda>(n, _). n \<noteq> ''image_link'') test_df
              @ [(''pack_size'', FloatCol (map Some ps2)),
                 (''total_measure'', FloatCol (map Some vs2))]
              @ map (\<lambda>l. (''unit_'' @ l, BoolCol (map (\<lambda>t. unit_of t = l) (astype_str repr s2))))
                  common)"
proof -
  from assms(3) obtain train_cols test_cols price log_price where f:
    "feature_extraction repr train_df test_df = Inr (train_cols, test_cols)"
    "get_column (filter (\<lambda>(n, _). n \<noteq> ''image_link'') train_df @ train_cols) ''price'' = Inr price"
    "log1p price = Inr log_price"
    "train_final =
       set_column (filter (\<lambda>(n, _). n \<noteq> ''image_link'') train_df @ train_cols)
         ''log_price'' log_price"
    "test_final = filter (\<lambda>(n, _). n \<noteq> ''image_link'') test_df @ test_cols"
    by (rule prepare_data_InrE)
  from f(1) obtain s1 ps1 vs1 s2 ps2 vs2 where g:
    "get_column train_df ''catalog_content'' = Inr s1"
    "extract_features repr s1 = Inr (ps1, vs1, map unit_of (astype_str repr s1))"
    "get_column test_df ''catalog_content'' = Inr s2"
    "extract_features repr s2 = Inr (ps2, vs2, map unit_of (astype_str repr s2))"
    "train_cols =
       [(''pack_size'', FloatCol (map Some ps1)), (''total_measure'', FloatCol (map Some vs1))]
       @ map (\<lambda>l. (''unit_'' @ l, BoolCol (map (\<lambda>u. u = l) (map unit_of (astype_str repr s1)))))
           (filter (\<lambda>l. l \<in> set (map unit_of (astype_str repr s2)))
              (sort (remdups (map unit_of (astype_str repr s1)))))"
    "test_cols =
       [(''pack_size'', FloatCol (fillna (median (map Some ps1)) (map Some ps2))),
        (''total_measure'', FloatCol (fillna (median (map Some vs1)) (map Some vs2)))]
       @ map (\<lambda>l. (''unit_'' @ l, BoolCol (map (\<lambda>u. u = l) (map unit_of (astype_str repr s2)))))
           (filter (\<lambda>l. l \<in> set (map unit_of (astype_str repr s2)))
              (sort (remdups (map unit_of (astype_str repr s1)))))"
    by (rule feature_extraction_InrE)
  let ?common = "filter (\<lambda>l. l \<in> set (map unit_of (astype_str repr s2)))
              (sort (remdups (map unit_of (astype_str repr s1))))"
  let ?T1 = "[(''pack_size'', FloatCol (map Some ps1)), (''total_measure'', FloatCol (map Some vs1))]
       @ map (\<lambda>l. (''unit_'' @ l, BoolCol (map (\<lambda>t. unit_of t = l) (astype_str repr s1)))) ?common"
  let ?T2 = "[(''pack_size'', FloatCol (map Some ps2)), (''total_measure'', FloatCol (map Some vs2))]
       @ map (\<lambda>l. (''unit_'' @ l, BoolCol (map (\<lambda>t. unit_of t = l) (astype_str repr s2)))) ?common"
  have tr: "train_cols = ?T1" unfolding g(5) by (simp add: comp_def)
  have te: "test_cols = ?T2" unfolding g(6) by (simp add: comp_def fillna_map_Some)
  from g(2) have e1:
    "map pack_size_of (astype_str repr s1) = map Inr ps1"
    "map value_of (astype_str repr s1) = map Inr vs1"
    by (simp_all add: extract_features_Inr_iff)
  from g(4) have e2:
    "map pack_size_of (astype_str repr s2) = map Inr ps2"
    "map value_of (astype_str repr s2) = map Inr vs2"
    by (simp_all add: extract_features_Inr_iff)
  have n1: "length (astype_str repr s1) = nrows train_df"
    using wf_frame_get_column [OF assms(1) g(1)] by (simp add: length_astype_str)
  have n2: "length (astype_str repr s2) = nrows test_df"
    using wf_frame_get_column [OF assms(2) g(3)] by (simp add: length_astype_str)
  have l1: "length ps1 = nrows train_df" "length vs1 = nrows train_df"
    using e1 n1 by (metis length_map)+
  have l2: "length ps2 = nrows test_df" "length vs2 = nrows test_df"
    using e2 n2 by (metis length_map)+
  have c1: "\<forall>(n, c) \<in> set ?T1. col_len c = nrows train_df"
    using l1 n1 by auto
  have c2: "\<forall>(n, c) \<in> set ?T2. col_len c = nrows test_df"
    using l2 n2 by auto
  have d1: "\<forall>(n, c) \<in> set (filter (\<lambda>(n, _). n \<noteq> ''image_link'') train_df @ ?T1).
              col_len c = nrows train_df"
    using filter_lengths [OF assms(1), of "\<lambda>(n, _). n \<noteq> ''image_link''"] c1
    unfolding set_append by blast
  have d2: "\<forall>(n, c) \<in> set (filter (\<lambda>(n, _). n \<noteq> ''image_link'') test_df @ ?T2).
              col_len c = nrows test_df"
    using filter_lengths [OF assms(2), of "\<lambda>(n, _). n \<noteq> ''image_link''"] c2
    unfolding set_append by blast
  have "map_of train_df ''price'' = Some price"
  proof -
    from names_feature_cols [OF f(1)] obtain ls where
      "names train_cols = ''pack_size'' # ''total_measure'' # map ((@) ''unit_'') ls" by blast
    then have "''price'' \<notin> set (names train_cols)"
      using not_unit_name [of "''price''" ls] by auto
    then have "map_of train_cols ''price'' = None"
      by (simp add: names_def map_of_eq_None_iff)
    then have "map_of (filter (\<lambda>(n, _). n \<noteq> ''image_link'') train_df @ train_cols) ''price''
          = map_of train_df ''price''"
      by (simp add: map_add_def map_of_filter_name split: option.splits)
    with f(2) show ?thesis by (simp add: get_column_def split: option.splits)
  qed
  then have "get_column train_df ''price'' = Inr price" by (simp add: get_column_def)
  from wf_frame_get_column [OF assms(1) this] col_len_log1p [OF f(3)]
  have lp: "col_len log_price = nrows train_df" by simp
  have F1: "train_final =
       set_column (filter (\<lambda>(n, _). n \<noteq> ''image_link'') train_df @ ?T1) ''log_price'' log_price"
    unfolding f(4) tr ..
  have F2: "test_final = filter (\<lambda>(n, _). n \<noteq> ''image_link'') test_df @ ?T2"
    unfolding f(5) te ..
  have C1: "\<forall>(n, c) \<in> set train_final. col_len c = nrows train_df"
    unfolding F1 using d1 lp by (rule set_column_lengths)
  have C2: "\<forall>(n, c) \<in> set test_final. col_len c = nrows test_df"
    unfolding F2 using d2 .
  have "train_final \<noteq> []" unfolding F1 by (rule set_column_not_Nil)
  with C1 have R1: "nrows train_final = nrows train_df" by (rule nrows_uniform)
  have "test_final \<noteq> []" unfolding F2 by simp
  with C2 have R2: "nrows test_final = nrows test_df" by (rule nrows_uniform)
  have E: "\<exists>s1 s2 ps1 vs1 ps2 vs2 common log_price.
            get_column train_df ''catalog_content'' = Inr s1 \<and>
            get_column test_df ''catalog_content'' = Inr s2 \<and>
            map pack_size_of (astype_str repr s1) = map Inr ps1 \<and>
            map value_of (astype_str repr s1) = map Inr vs1 \<and>
            map pack_size_of (astype_str repr s2) = map Inr ps2 \<and>
            map value_of (astype_str repr s2) = map Inr vs2 \<and>
            train_final =
              set_column
                (filter (\<lambda>(n, _). n \<noteq> ''image_link'') train_df
                 @ [(''pack_size'', FloatCol (map Some ps1)),
                    (''total_measure'', FloatCol (map Some vs1))]
                 @ map (\<lambda>l. (''unit_'' @ l, BoolCol (map (\<lambda>t. unit_of t = l) (astype_str repr s1))))
                     common)
                ''log_price'' log_price \<and>
            test_final =
              filter (\<lambda>(n, _). n \<noteq> ''image_link'') test_df
              @ [(''pack_size'', FloatCol (map Some ps2)),
                 (''total_measure'', FloatCol (map Some vs2))]
              @ map (\<lambda>l. (''unit_'' @ l, BoolCol (map (\<lambda>t. unit_of t = l) (astype_str repr s2))))
                  common"
    apply (rule exI [of _ s1], rule exI [of _ s2], rule exI [of _ ps1], rule exI [of _ vs1])
    apply (rule exI [of _ ps2], rule exI [of _ vs2], rule exI [of _ ?common])
    apply (rule exI [of _ log_price])
    using g(1) g(3) e1 e2 F1 F2 apply (intro conjI)
           apply assumption+
    done
  from R1 R2 C1 C2 E show ?thesis by (intro conjI)
qed

theorem rows_preserved_witness:
  "wf_frame
     [(''sample_id'', FloatCol [Some 7, Some 8]),
      (''catalog_content'', ObjCol [Some ''Count 12 Unit: lb'', None]),
      (''image_link'', ObjCol [Some ''a.jpg'', Some ''b.jpg'']),
      (''price'', FloatCol [Some 0, None])] \<and>
   wf_frame
     [(''sample_id'', FloatCol [Some 9]),
      (''catalog_content'', ObjCol [Some ''unit: LB'']),
      (''image_link'', ObjCol [None])] \<and>
   prepare_data (\<lambda>_. ''0'')
     [(''sample_id'', FloatCol [Some 7, Some 8]),
      (''catalog_content'', ObjCol [Some ''Count 12 Unit: lb'', None]),
      (''image_link'', ObjCol [Some ''a.jpg'', Some ''b.jpg'']),
      (''price'', FloatCol [Some 0, None])]
     [(''sample_id'', FloatCol [Some 9]),
      (''catalog_content'', ObjCol [Some ''unit: LB'']),
      (''image_link'', ObjCol [None])]
   = Inr ([(''sample_id'', FloatCol [Some 7, Some 8]),
           (''catalog_content'', ObjCol [Some ''Count 12 Unit: lb'', None]),
           (''price'', FloatCol [Some 0, None]),
           (''pack_size'', FloatCol [Some 12, Some 1]),
           (''total_measure'', FloatCol [Some 0, Some 0]),
           (''unit_lb'', BoolCol [True, False]),
           (''log_price'', FloatCol [Some 0, None])],
          [(''sample_id'', FloatCol [Some 9]),
           (''catalog_content'', ObjCol [Some ''unit: LB'']),
           (''pack_size'', FloatCol [Some 1]),
           (''total_measure'', FloatCol [Some 0]),
           (''unit_lb'', BoolCol [True])]) \<and>
   nrows [(''sample_id'', FloatCol [Some 7, Some 8]),
           (''catalog_content'', ObjCol [Some ''Count 12 Unit: lb'', None]),
           (''price'', FloatCol [Some 0, None]),
           (''pack_size'', FloatCol [Some 12, Some 1]),
           (''total_measure'', FloatCol [Some 0, Some 0]),
           (''unit_lb'', BoolCol [True, False]),
           (''log_price'', FloatCol [Some 0, None])] = 2 \<and>
   nrows [(''sample_id'', FloatCol [Some 9]),
           (''catalog_content'', ObjCol [Some ''unit: LB'']),
           (''pack_size'', FloatCol [Some 1]),
           (''total_measure'', FloatCol [Some 0]),
           (''unit_lb'', BoolCol [True])] = 1"
proof -
  let ?tr = "[(''sample_id'', FloatCol [Some 7, Some 8]),
      (''catalog_content'', ObjCol [Some ''Count 12 Unit: lb'', None]),
      (''image_link'', ObjCol [Some ''a.jpg'', Some ''b.jpg'']),
      (''price'', FloatCol [Some 0, None])]"
  let ?te = "[(''sample_id'', FloatCol [Some 9]),
      (''catalog_content'', ObjCol [Some ''unit: LB'']),
      (''image_link'', ObjCol [None])]"
  let ?A = "[(''pack_size'', FloatCol [Some 12, Some 1]),
           (''total_measure'', FloatCol [Some 0, Some 0]),
           (''unit_lb'', BoolCol [True, False])]"
  let ?B = "[(''pack_size'', FloatCol [Some 1]),
           (''total_measure'', FloatCol [Some 0]),
           (''unit_lb'', BoolCol [True])]"
  let ?TF = "[(''sample_id'', FloatCol [Some 7, Some 8]),
           (''catalog_content'', ObjCol [Some ''Count 12 Unit: lb'', None]),
           (''price'', FloatCol [Some 0, None]),
           (''pack_size'', FloatCol [Some 12, Some 1]),
           (''total_measure'', FloatCol [Some 0, Some 0]),
           (''unit_lb'', BoolCol [True, False]),
           (''log_price'', FloatCol [Some 0, None])]"
  let ?TeF = "[(''sample_id'', FloatCol [Some 9]),
           (''catalog_content'', ObjCol [Some ''unit: LB'']),
           (''pack_size'', FloatCol [Some 1]),
           (''total_measure'', FloatCol [Some 0]),
           (''unit_lb'', BoolCol [True])]"
  have w1: "wf_frame ?tr" by (simp add: wf_frame_def names_def nrows_def)
  have w2: "wf_frame ?te" by (simp add: wf_frame_def names_def nrows_def)
  have fe: "feature_extraction (\<lambda>_. ''0'') ?tr ?te = Inr (?A, ?B)" by code_simp
  have sp: "save_processed ?tr ?te ?A ?B = Inr (?TF, ?TeF)"
    by (simp add: save_processed_def drop_column_def names_def concat_columns_def
        get_column_def set_column_def)
  have pd: "prepare_data (\<lambda>_. ''0'') ?tr ?te = Inr (?TF, ?TeF)"
    by (simp only: prepare_data_def fe sp sum.case prod.case)
  note r = rows_preserved [OF w1 w2 pd]
  from r have r1: "nrows ?TF = nrows ?tr" by (rule conjunct1)
  from r have r2: "nrows ?TeF = nrows ?te" by (rule conjunct2 [THEN conjunct1])
  have n1: "nrows ?tr = 2" by (simp add: nrows_def)
  have n2: "nrows ?te = 1" by (simp add: nrows_def)
  from r1 n1 have a: "nrows ?TF = 2" by (rule trans)
  from r2 n2 have b: "nrows ?TeF = 1" by (rule trans)
  from w1 w2 pd a b show ?thesis by (intro conjI)
qed

text \<open>
  C9: the \<^verbatim>\<open>log_price\<close> column of the final train frame is \<^verbatim>\<open>np.log1p\<close> of the
  \<^verbatim>\<open>price\<close> column of the loaded train frame. For a numeric price column it has the same
  length, and in every row with a price \<open>p\<close> above \<open>-1\<close> it holds \<open>ln (1 + p)\<close>, from which
  \<open>exp\<close> and subtracting one give \<open>p\<close> back. The final test frame has a column of that name
  only if the loaded test frame had one. Numbers are reals here: the rounding of the
  floating-point logarithm is not part of the model.
\<close>

theorem log_price_of_train_price:
  assumes "prepare_data repr train_df test_df = Inr (train_final, test_final)"
  shows "\<exists>price log_price.
           get_column train_df ''price'' = Inr price \<and>
           log1p price = Inr log_price \<and>
           map_of train_final ''log_price'' = Some log_price \<and>
           (\<forall>prices. price = FloatCol prices \<longrightarrow>
              (\<exists>lps. log_price = FloatCol lps \<and> length lps = length prices \<and>
                 (\<forall>i < length prices. \<forall>p. prices ! i = Some p \<and> - 1 < p \<longrightarrow>
                    lps ! i = Some (ln (1 + p)) \<and> exp (ln (1 + p)) - 1 = p))) \<and>
           (''log_price'' \<in> set (names test_final) \<longleftrightarrow> ''log_price'' \<in> set (names test_df))"
proof -
  from assms obtain train_cols test_cols price log_price where f:
    "feature_extraction repr train_df test_df = Inr (train_cols, test_cols)"
    "get_column (filter (\<lambda>(n, _). n \<noteq> ''image_link'') train_df @ train_cols) ''price'' = Inr price"
    "log1p price = Inr log_price"
    "train_final =
       set_column (filter (\<lambda>(n, _). n \<noteq> ''image_link'') train_df @ train_cols)
         ''log_price'' log_price"
    "test_final = filter (\<lambda>(n, _). n \<noteq> ''image_link'') test_df @ test_cols"
    by (rule prepare_data_InrE)
  from names_feature_cols [OF f(1)] obtain ls where
    ntr: "names train_cols = ''pack_size'' # ''total_measure'' # map ((@) ''unit_'') ls" and
    nte: "names test_cols = ''pack_size'' # ''total_measure'' # map ((@) ''unit_'') ls"
    by blast
  have "''price'' \<notin> set (names train_cols)"
    using not_unit_name [of "''price''" ls] unfolding ntr by blast
  then have none: "map_of train_cols ''price'' = None"
    by (simp add: names_def map_of_eq_None_iff)
  have "map_of (filter (\<lambda>(n, _). n \<noteq> ''image_link'') train_df @ train_cols) ''price''
          = map_of train_df ''price''"
    using none by (simp add: map_add_def map_of_filter_name split: option.splits)
  with f(2) have A: "get_column train_df ''price'' = Inr price"
    by (simp add: get_column_def)
  have B: "map_of train_final ''log_price'' = Some log_price"
    unfolding f(4) by (rule map_of_set_column)
  have C: "\<forall>prices. price = FloatCol prices \<longrightarrow>
              (\<exists>lps. log_price = FloatCol lps \<and> length lps = length prices \<and>
                 (\<forall>i < length prices. \<forall>p. prices ! i = Some p \<and> - 1 < p \<longrightarrow>
                    lps ! i = Some (ln (1 + p)) \<and> exp (ln (1 + p)) - 1 = p))"
  proof (intro allI impI)
    fix prices assume "price = FloatCol prices"
    with f(3) have lp: "log_price = FloatCol (map (\<lambda>x. case x of None \<Rightarrow> None
                              | Some p \<Rightarrow> if - 1 < p then Some (ln (1 + p)) else None) prices)"
      by simp
    show "\<exists>lps. log_price = FloatCol lps \<and> length lps = length prices \<and>
                 (\<forall>i < length prices. \<forall>p. prices ! i = Some p \<and> - 1 < p \<longrightarrow>
                    lps ! i = Some (ln (1 + p)) \<and> exp (ln (1 + p)) - 1 = p)"
      unfolding lp by (rule exI, intro conjI, rule refl) auto
  qed
  have "''log_price'' \<notin> set (names test_cols)"
    using not_unit_name [of "''log_price''" ls] unfolding nte by blast
  moreover have "''log_price'' \<in> set (names (filter (\<lambda>(n, _). n \<noteq> ''image_link'') test_df))
                   \<longleftrightarrow> ''log_price'' \<in> set (names test_df)"
    by (rule names_filter_name) simp
  ultimately have D: "''log_price'' \<in> set (names test_final) \<longleftrightarrow> ''log_price'' \<in> set (names test_df)"
    unfolding f(5) by (simp add: names_def)
  from A f(3) B C D show ?thesis by blast
qed

theorem log_price_of_train_price_witness:
  "prepare_data (\<lambda>_. ''0'')
     [(''catalog_content'', ObjCol [Some ''Pack of 6; Value: 11.25; Unit: Oz'', Some ''12 per case'']),
      (''image_link'', ObjCol [None, None]),
      (''price'', FloatCol [Some 3, None])]
     [(''catalog_content'', ObjCol [Some ''Unit: oz'']), (''image_link'', ObjCol [None])]
   = Inr ([(''catalog_content'', ObjCol [Some ''Pack of 6; Value: 11.25; Unit: Oz'', Some ''12 per case'']),
           (''price'', FloatCol [Some 3, None]),
           (''pack_size'', FloatCol [Some 6, Some 1]),
           (''total_measure'', FloatCol [Some (45 / 4), Some 0]),
           (''unit_oz'', BoolCol [True, False]),
           (''log_price'', FloatCol [Some (ln 4), None])],
          [(''catalog_content'', ObjCol [Some ''Unit: oz'']),
           (''pack_size'', FloatCol [Some 1]),
           (''total_measure'', FloatCol [Some 0]),
           (''unit_oz'', BoolCol [True])]) \<and>
   exp (ln (1 + 3)) - 1 = (3::real) \<and>
   ''log_price'' \<notin> set (names
          [(''catalog_content'', ObjCol [Some ''Unit: oz'']),
           (''pack_size'', FloatCol [Some 1]),
           (''total_measure'', FloatCol [Some 0]),
           (''unit_oz'', BoolCol [True])])"
proof -
  let ?tr = "[(''catalog_content'', ObjCol [Some ''Pack of 6; Value: 11.25; Unit: Oz'', Some ''12 per case'']),
      (''image_link'', ObjCol [None, None]),
      (''price'', FloatCol [Some 3, None])]"
  let ?te = "[(''catalog_content'', ObjCol [Some ''Unit: oz'']), (''image_link'', ObjCol [None])]"
  let ?A = "[(''pack_size'', FloatCol [Some 6, Some 1]),
           (''total_measure'', FloatCol [Some (45 / 4), Some 0]),
           (''unit_oz'', BoolCol [True, False])]"
  let ?B = "[(''pack_size'', FloatCol [Some 1]),
           (''total_measure'', FloatCol [Some 0]),
           (''unit_oz'', BoolCol [True])]"
  let ?TF = "[(''catalog_content'', ObjCol [Some ''Pack of 6; Value: 11.25; Unit: Oz'', Some ''12 per case'']),
           (''price'', FloatCol [Some 3, None]),
           (''pack_size'', FloatCol [Some 6, Some 1]),
           (''total_measure'', FloatCol [Some (45 / 4), Some 0]),
           (''unit_oz'', BoolCol [True, False]),
           (''log_price'', FloatCol [Some (ln 4), None])]"
  let ?TeF = "[(''catalog_content'', ObjCol [Some ''Unit: oz'']),
           (''pack_size'', FloatCol [Some 1]),
           (''total_measure'', FloatCol [Some 0]),
           (''unit_oz'', BoolCol [True])]"
  have fe: "feature_extraction (\<lambda>_. ''0'') ?tr ?te = Inr (?A, ?B)" by code_simp
  have sp: "save_processed ?tr ?te ?A ?B = Inr (?TF, ?TeF)"
    by (simp add: save_processed_def drop_column_def names_def concat_columns_def
        get_column_def set_column_def)
  have pd: "prepare_data (\<lambda>_. ''0'') ?tr ?te = Inr (?TF, ?TeF)"
    by (simp only: prepare_data_def fe sp sum.case prod.case)
  have tn: "''log_price'' \<notin> set (names ?te)" by (simp add: names_def)
  from log_price_of_train_price [OF pd] obtain price log_price where
    a: "get_column ?tr ''price'' = Inr price"
       "\<forall>prices. price = FloatCol prices \<longrightarrow>
              (\<exists>lps. log_price = FloatCol lps \<and> length lps = length prices \<and>
                 (\<forall>i < length prices. \<forall>p. prices ! i = Some p \<and> - 1 < p \<longrightarrow>
                    lps ! i = Some (ln (1 + p)) \<and> exp (ln (1 + p)) - 1 = p))"
       "''log_price'' \<in> set (names ?TeF) \<longleftrightarrow> ''log_price'' \<in> set (names ?te)"
    by (elim exE conjE) (rule that; assumption)
  have gp: "get_column ?tr ''price'' = Inr (FloatCol [Some 3, None])"
    by (simp add: get_column_def)
  from a(1) have pe: "price = FloatCol [Some 3, None]"
    by (simp only: gp sum.inject)
  from a(2) [rule_format, OF pe] obtain lps where
    l: "\<forall>i < length [Some (3::real), None]. \<forall>p::real. [Some 3, None] ! i = Some p \<and> - 1 < p \<longrightarrow>
        lps ! i = Some (ln (1 + p)) \<and> exp (ln (1 + p)) - 1 = p"
    by (elim exE conjE) (rule that; assumption)
  have i0: "(0::nat) < length [Some (3::real), None]" by simp
  have p0: "[Some (3::real), None] ! 0 = Some 3 \<and> - 1 < (3::real)" by simp
  from l [rule_format, OF i0 p0] have r: "exp (ln (1 + 3)) - 1 = (3::real)" by (rule conjunct2)
  have t: "''log_price'' \<notin> set (names ?TeF)" unfolding a(3) by (rule tn)
  from pd r t show ?thesis by (intro conjI)
qed

end
